theory Spec2Isabelle
  imports Main
begin

section \<open>JavaScript values\<close>

text \<open>
  The client and the provider handle untyped data: the body of a registry response
  (\<open>await response.json()\<close>), tool descriptors, JSON Schema descriptors and tool
  arguments. TypeScript's annotations are erased at run time, so the model keeps these
  values as they are: a JSON tree, with \<open>JUndefined\<close> for the value of a missing
  property or argument. An object is the list of its own properties in enumeration order.
  A number is kept as what the code can observe of it: its rendering by ToString (\<open>0\<close>
  for both zeros) and whether it is an integer. A \<open>char\<close> stands for one code unit of a
  JavaScript string, so strings are those whose code units are below 256.
\<close>

datatype json =
    JUndefined
  | JNull
  | JBool bool
  | JNum string bool
  | JStr string
  | JArr "json list"
  | JObj "(string \<times> json) list"

text \<open>
  A thrown value: an \<open>Error\<close> instance (built-in errors such as TypeError and
  SyntaxError included) with its \<open>message\<close>, or any other value.
\<close>

datatype js_exn = JsError string | JsThrown json

type_synonym 'a result = "js_exn + 'a"

definition type_error :: js_exn where
  "type_error = JsError ''Cannot read properties of undefined''"

text \<open>
  \<open>!!v\<close>: the falsy values are undefined, null, false, zero, NaN and the empty string.
\<close>

fun truthy :: "json \<Rightarrow> bool" where
  "truthy JUndefined = False"
| "truthy JNull = False"
| "truthy (JBool b) = b"
| "truthy (JNum t i) = (t \<noteq> ''0'' \<and> t \<noteq> ''NaN'')"
| "truthy (JStr s) = (s \<noteq> [])"
| "truthy (JArr xs) = True"
| "truthy (JObj kvs) = True"

text \<open>
  \<open>v.k\<close> for the property names the code reads (tools, name, description, inputSchema,
  type, properties, required, items, result, content, url): reading a property of
  undefined or null throws a TypeError, an object yields the property or undefined, and
  every other value has no such property.
\<close>

fun js_get :: "json \<Rightarrow> string \<Rightarrow> json result" where
  "js_get JUndefined k = Inl type_error"
| "js_get JNull k = Inl type_error"
| "js_get (JObj kvs) k = Inr (case map_of kvs k of None \<Rightarrow> JUndefined | Some v \<Rightarrow> v)"
| "js_get v k = Inr JUndefined"

text \<open>\<open>a || b\<close> on values.\<close>

definition js_or :: "json \<Rightarrow> json \<Rightarrow> json" where
  "js_or a b = (if truthy a then a else b)"

subsection \<open>Rendering a value in a template literal\<close>

function show_nat :: "nat \<Rightarrow> string" where
  "show_nat n =
     (if n < 10 then [char_of (48 + n)]
      else show_nat (n div 10) @ [char_of (48 + n mod 10)])"
  by pat_completeness auto
termination
  by (relation "measure (\<lambda>n. n)") auto

declare show_nat.simps [simp del]

fun join :: "string \<Rightarrow> string list \<Rightarrow> string" where
  "join sep [] = []"
| "join sep [x] = x"
| "join sep (x # y # ys) = x @ sep @ join sep (y # ys)"

text \<open>
  \<open>`${v}`\<close>: ToString. An array joins its elements with commas, rendering undefined
  and null elements as the empty string. A plain object is \<open>[object Object]\<close>, unless it
  has an own property \<open>toString\<close>: that property is not callable, \<open>valueOf\<close> does not
  yield a primitive either, and the conversion throws a TypeError.
\<close>

fun template :: "json \<Rightarrow> string result"
  and template_elements :: "json list \<Rightarrow> string list result"
where
  "template JUndefined = Inr ''undefined''"
| "template JNull = Inr ''null''"
| "template (JBool b) = Inr (if b then ''true'' else ''false'')"
| "template (JNum t i) = Inr t"
| "template (JStr s) = Inr s"
| "template (JArr xs) =
     (case template_elements xs of Inl e \<Rightarrow> Inl e | Inr ss \<Rightarrow> Inr (join '','' ss))"
| "template (JObj kvs) =
     (if ''toString'' \<in> fst ` set kvs
      then Inl (JsError ''Cannot convert object to primitive value'')
      else Inr ''[object Object]'')"
| "template_elements [] = Inr []"
| "template_elements (x # xs) =
     (case (if x = JUndefined \<or> x = JNull then Inr [] else template x) of
        Inl e \<Rightarrow> Inl e
      | Inr s \<Rightarrow> (case template_elements xs of Inl e \<Rightarrow> Inl e | Inr ss \<Rightarrow> Inr (s # ss)))"

section \<open>Qualified tool names\<close>

text \<open>The character class \<open>[a-zA-Z0-9_]\<close> of the regular expression.\<close>

definition word_char :: "char \<Rightarrow> bool" where
  "word_char c =
     (let n = (of_char c :: nat)
      in (97 \<le> n \<and> n \<le> 122) \<or> (65 \<le> n \<and> n \<le> 90) \<or> (48 \<le> n \<and> n \<le> 57) \<or> n = 95)"

text \<open>\<open>s.replace(/[^a-zA-Z0-9_]/g, '_')\<close>\<close>

definition replace_non_word :: "string \<Rightarrow> string" where
  "replace_non_word s = map (\<lambda>c. if word_char c then c else CHR ''_'') s"

text \<open>
  The \<open>name\<close> field computed by \<open>convertToAiSdkTool\<close>:
  \<open>`${connectionName}_${mcpTool.name}`.replace(/[^a-zA-Z0-9_]/g, '_')\<close>.
\<close>

definition qualified_name :: "string \<Rightarrow> json \<Rightarrow> string result" where
  "qualified_name connectionName mcpTool_name =
     (case template mcpTool_name of
        Inl e \<Rightarrow> Inl e
      | Inr rendered \<Rightarrow> Inr (replace_non_word (connectionName @ ''_'' @ rendered)))"

section \<open>Plain objects\<close>

text \<open>
  The code builds two plain objects by assignment, \<open>shape[key] = ...\<close> in the translator
  and \<open>tools[name] = tool\<close> in \<open>getTools\<close>. On a plain object, assigning to \<open>__proto__\<close>
  sets the prototype and adds no property. Other keys become own properties, and the
  properties are enumerated with the array indices first, in ascending order, then the
  other keys in the order they were added. An array index is the canonical decimal form
  of an integer below \<open>2^32 - 1\<close>.
\<close>

definition is_digit :: "char \<Rightarrow> bool" where
  "is_digit c = (48 \<le> (of_char c :: nat) \<and> (of_char c :: nat) \<le> 57)"

fun read_nat :: "nat \<Rightarrow> string \<Rightarrow> nat" where
  "read_nat acc [] = acc"
| "read_nat acc (c # cs) = read_nat (10 * acc + (of_char c - 48)) cs"

definition array_index :: "string \<Rightarrow> nat option" where
  "array_index k =
     (if k = [] then None
      else if \<not> list_all is_digit k then None
      else if hd k = CHR ''0'' \<and> length k > 1 then None
      else if length k > 10 then None
      else if read_nat 0 k < 4294967295 then Some (read_nat 0 k) else None)"

fun insert_index :: "nat \<Rightarrow> string \<Rightarrow> 'a \<Rightarrow> (string \<times> 'a) list \<Rightarrow> (string \<times> 'a) list" where
  "insert_index i k v [] = [(k, v)]"
| "insert_index i k v ((k', v') # rest) =
     (case array_index k' of
        None \<Rightarrow> (k, v) # (k', v') # rest
      | Some j \<Rightarrow>
          if j < i then (k', v') # insert_index i k v rest
          else (k, v) # (k', v') # rest)"

definition object_assign :: "(string \<times> 'a) list \<Rightarrow> string \<Rightarrow> 'a \<Rightarrow> (string \<times> 'a) list" where
  "object_assign obj k v =
     (if k = ''__proto__'' then obj
      else if k \<in> fst ` set obj then map (\<lambda>(k', v'). if k' = k then (k, v) else (k', v')) obj
      else case array_index k of
             None \<Rightarrow> obj @ [(k, v)]
           | Some i \<Rightarrow> insert_index i k v obj)"

section \<open>Schema translator\<close>

text \<open>
  The validation schemas the code builds with the zod library: \<open>z.any()\<close>,
  \<open>z.string()\<close>, \<open>z.string().url()\<close>, \<open>z.number()\<close>, \<open>z.number().int()\<close>,
  \<open>z.boolean()\<close>, \<open>z.array(s)\<close>, \<open>z.object(shape)\<close> (the flag records
  \<open>.passthrough()\<close>), \<open>s.optional()\<close>, \<open>s.default(v)\<close> and \<open>s.describe(text)\<close>.
\<close>

datatype zod =
    ZAny
  | ZString
  | ZUrl
  | ZNumber
  | ZInt
  | ZBoolean
  | ZArray zod
  | ZObject "(string \<times> zod) list" bool
  | ZOptional zod
  | ZDefault zod json
  | ZDescribe zod string

text \<open>\<open>Object.keys(v)\<close> and \<open>Object.values(v)\<close>; together they are \<open>Object.entries(v)\<close>.\<close>

fun own_keys :: "json \<Rightarrow> string list" where
  "own_keys (JObj kvs) = map fst kvs"
| "own_keys (JArr xs) = map show_nat [0..<length xs]"
| "own_keys (JStr s) = map show_nat [0..<length s]"
| "own_keys v = []"

fun own_values :: "json \<Rightarrow> json list" where
  "own_values (JObj kvs) = map snd kvs"
| "own_values (JArr xs) = xs"
| "own_values (JStr s) = map (\<lambda>c. JStr [c]) s"
| "own_values v = []"

text \<open>
  \<open>m.set(k, v)\<close> on a \<open>Map\<close>: an existing key keeps its place and takes the new value,
  a new key goes to the end.
\<close>

fun map_set :: "(string \<times> 'a) list \<Rightarrow> string \<Rightarrow> 'a \<Rightarrow> (string \<times> 'a) list" where
  "map_set [] k v = [(k, v)]"
| "map_set ((k', v') # kvs) k v =
     (if k' = k then (k, v) # kvs else (k', v') # map_set kvs k v)"

fun starts_with :: "string \<Rightarrow> string \<Rightarrow> bool" where
  "starts_with s [] = True"
| "starts_with [] (p # ps) = False"
| "starts_with (c # cs) (p # ps) = (c = p \<and> starts_with cs ps)"

fun contains :: "string \<Rightarrow> string \<Rightarrow> bool" where
  "contains [] p = (p = [])"
| "contains (c # cs) p = (starts_with (c # cs) p \<or> contains cs p)"

text \<open>
  \<open>required.includes(key)\<close>: membership in an array, a substring test on a string,
  and a TypeError on any other (truthy) value, which has no \<open>includes\<close> method.
\<close>

fun js_includes :: "json \<Rightarrow> string \<Rightarrow> bool result" where
  "js_includes (JArr xs) key = Inr (JStr key \<in> set xs)"
| "js_includes (JStr s) key = Inr (contains s key)"
| "js_includes v key = Inl (JsError ''required.includes is not a function'')"

text \<open>The loop of \<open>jsonSchemaToZod\<close> that makes the fields not listed in \<open>required\<close> optional.\<close>

fun mark_optional :: "json \<Rightarrow> (string \<times> zod) list \<Rightarrow> (string \<times> zod) list result" where
  "mark_optional required [] = Inr []"
| "mark_optional required ((key, z) # shape) =
     (case js_includes required key of
        Inl e \<Rightarrow> Inl e
      | Inr listed \<Rightarrow>
          (case mark_optional required shape of
             Inl e \<Rightarrow> Inl e
           | Inr shape' \<Rightarrow> Inr ((key, if listed then z else ZOptional z) # shape')))"

text \<open>A measure on values for the termination of the translator.\<close>

fun weight :: "json \<Rightarrow> nat" where
  "weight (JStr s) = length s - 1"
| "weight (JArr xs) = Suc (sum_list (map (\<lambda>x. Suc (weight x)) xs))"
| "weight (JObj kvs) = Suc (sum_list (map (\<lambda>kv. Suc (weight (snd kv))) kvs))"
| "weight v = 0"

lemma weight_map_of:
  "map_of kvs k = Some v \<Longrightarrow> weight v < sum_list (map (\<lambda>kv. Suc (weight (snd kv))) kvs)"
  by (induction kvs) (auto split: if_splits)

lemma weight_js_get: "js_get j k = Inr v \<Longrightarrow> truthy v \<Longrightarrow> Suc (weight v) < weight j"
  by (cases j) (auto split: option.splits dest: weight_map_of)

lemma weight_own_values:
  "sum_list (map (\<lambda>v. 3 * weight v + 3) (own_values p)) \<le> 3 * weight p + 3"
proof (cases p)
  case (JStr s)
  then show ?thesis by (simp add: comp_def sum_list_triv)
next
  case (JArr xs)
  then show ?thesis by (induction xs arbitrary: p) auto
next
  case (JObj kvs)
  then show ?thesis by (induction kvs arbitrary: p) auto
qed simp_all

text \<open>
  \<open>jsonSchemaToZod\<close> and \<open>convertJsonSchemaProperty\<close>, which call each other;
  \<open>convert_values\<close> is the loop over \<open>Object.entries(jsonSchema.properties)\<close>, whose
  results are assigned to \<open>shape\<close> key by key.
\<close>

function jsonSchemaToZod :: "json \<Rightarrow> zod result"
  and convertJsonSchemaProperty :: "json \<Rightarrow> zod result"
  and convert_values :: "json list \<Rightarrow> zod list result"
where
  "jsonSchemaToZod jsonSchema =
     (if \<not> truthy jsonSchema \<or> own_keys jsonSchema = [] then Inr (ZObject [] True)
      else case js_get jsonSchema ''type'' of
        Inl e \<Rightarrow> Inl e
      | Inr ty \<Rightarrow>
          if ty \<noteq> JStr ''object'' then Inr ZAny
          else case js_get jsonSchema ''properties'' of
            Inl e \<Rightarrow> Inl e
          | Inr properties \<Rightarrow>
              if \<not> truthy properties then Inr ZAny
              else case convert_values (own_values properties) of
                Inl e \<Rightarrow> Inl e
              | Inr zs \<Rightarrow>
                  (case js_get jsonSchema ''required'' of
                     Inl e \<Rightarrow> Inl e
                   | Inr req \<Rightarrow>
                       (case mark_optional (js_or req (JArr []))
                               (foldl (\<lambda>shape (key, z). object_assign shape key z) []
                                  (zip (own_keys properties) zs)) of
                          Inl e \<Rightarrow> Inl e
                        | Inr shape \<Rightarrow> Inr (ZObject shape False))))"
| "convertJsonSchemaProperty prop =
     (if \<not> truthy prop then Inr ZAny
      else case js_get prop ''type'' of
        Inl e \<Rightarrow> Inl e
      | Inr ty \<Rightarrow>
          if \<not> truthy ty then Inr ZAny
          else if ty = JStr ''string'' then Inr ZString
          else if ty = JStr ''number'' then Inr ZNumber
          else if ty = JStr ''integer'' then Inr ZInt
          else if ty = JStr ''boolean'' then Inr ZBoolean
          else if ty = JStr ''array'' then
            (case js_get prop ''items'' of
               Inl e \<Rightarrow> Inl e
             | Inr items \<Rightarrow>
                 if truthy items then
                   (case convertJsonSchemaProperty items of
                      Inl e \<Rightarrow> Inl e
                    | Inr z \<Rightarrow> Inr (ZArray z))
                 else Inr (ZArray ZAny))
          else if ty = JStr ''object'' then jsonSchemaToZod prop
          else Inr ZAny)"
| "convert_values [] = Inr []"
| "convert_values (v # vs) =
     (case convertJsonSchemaProperty v of
        Inl e \<Rightarrow> Inl e
      | Inr z \<Rightarrow> (case convert_values vs of Inl e \<Rightarrow> Inl e | Inr zs \<Rightarrow> Inr (z # zs)))"
  by pat_completeness auto
termination
  apply (relation "measure (\<lambda>x. case x of
            Inl js \<Rightarrow> 3 * weight js + 1
          | Inr (Inl p) \<Rightarrow> 3 * weight p + 2
          | Inr (Inr vs) \<Rightarrow> sum_list (map (\<lambda>v. 3 * weight v + 3) vs))")
  apply simp
  subgoal for jsonSchema ty properties
    using weight_own_values[of properties]
      weight_js_get[of jsonSchema "''properties''" properties]
    by (simp del: sum_list.Cons)
  subgoal for p ty items
    using weight_js_get[of p "''items''" items] by simp
  apply simp
  apply simp
  apply simp
  done

declare jsonSchemaToZod.simps [simp del] convertJsonSchemaProperty.simps [simp del]

subsection \<open>What a schema accepts\<close>






section \<open>The environment\<close>

text \<open>
  What the code reaches outside itself: the clock (\<open>Date.now()\<close>, milliseconds since
  the epoch), the credential provider (\<open>getDatabricksToken\<close>), the host lookup
  (\<open>getHostUrl\<close>) and \<open>fetch\<close>. Each of them can fail, and the code calls them inside
  \<open>try\<close> blocks. The environment scripts every attempt to reach the registry: what the
  two lookups yield, what \<open>fetch\<close> yields for the request it is given, and how long the
  attempt takes. The world counts the attempts, logs each call of \<open>fetch\<close> with its
  request and advances the clock. The body of a request is the value that the code
  hands to \<open>JSON.stringify\<close>.
\<close>

record request =
  req_url :: string
  req_method :: string
  req_headers :: "(string \<times> string) list"
  req_body :: json

record response =
  resp_ok :: bool
  resp_statusText :: string
  resp_text :: "string result"
  resp_json :: "json result"

record attempt =
  token :: "string result"
  host :: "string result"
  fetch :: "request \<Rightarrow> response result"
  latency :: nat

record world =
  clock :: nat
  script :: "nat \<Rightarrow> attempt"
  attempts :: nat
  sent :: "request list"
  toISOString :: "nat \<Rightarrow> string"

text \<open>
  \<open>headers.set(name, value)\<close> strips the HTTP whitespace (tab, LF, CR, space) at both
  ends of the value and throws a TypeError when a NUL, LF or CR is left in it.
\<close>

definition http_whitespace :: "char \<Rightarrow> bool" where
  "http_whitespace c = ((of_char c :: nat) \<in> {9, 10, 13, 32})"

definition normalize_header_value :: "string \<Rightarrow> string" where
  "normalize_header_value v =
     rev (dropWhile http_whitespace (rev (dropWhile http_whitespace v)))"

definition valid_header_value :: "string \<Rightarrow> bool" where
  "valid_header_value v = list_all (\<lambda>c. (of_char c :: nat) \<notin> {0, 10, 13}) v"

definition getAuthHeaders :: "attempt \<Rightarrow> (string \<times> string) list result" where
  "getAuthHeaders a =
     (case token a of
        Inl e \<Rightarrow> Inl e
      | Inr tok \<Rightarrow>
          (let v = normalize_header_value (''Bearer '' @ tok)
           in if valid_header_value v
              then Inr [(''authorization'', v), (''content-type'', ''application/json'')]
              else Inl (JsError ''Headers.set: invalid header value'')))"

definition getBaseUrl :: "attempt \<Rightarrow> string result" where
  "getBaseUrl a = (case host a of Inl e \<Rightarrow> Inl e | Inr h \<Rightarrow> Inr (h @ ''/api/2.0/mcp''))"

text \<open>
  The statements shared by \<open>listTools\<close> and \<open>callTool\<close>, from
  \<open>headers = await this.getAuthHeaders()\<close> and \<open>baseUrl = this.getBaseUrl()\<close> to
  \<open>await fetch(`${baseUrl}/external/${connectionName}`, {method: 'POST', headers, body})\<close>.
  \<open>prepare\<close> is the request that \<open>fetch\<close> is called with, if the code gets that far;
  \<open>response_of\<close> is what the \<open>await\<close> yields; \<open>post\<close> runs them in the world.
\<close>

definition prepare :: "string \<Rightarrow> json \<Rightarrow> attempt \<Rightarrow> request result" where
  "prepare connectionName body a =
     (case getAuthHeaders a of
        Inl e \<Rightarrow> Inl e
      | Inr headers \<Rightarrow>
          (case getBaseUrl a of
             Inl e \<Rightarrow> Inl e
           | Inr baseUrl \<Rightarrow>
               Inr \<lparr>req_url = baseUrl @ ''/external/'' @ connectionName,
                    req_method = ''POST'', req_headers = headers, req_body = body\<rparr>))"

definition response_of :: "string \<Rightarrow> json \<Rightarrow> attempt \<Rightarrow> response result" where
  "response_of connectionName body a =
     (case prepare connectionName body a of Inl e \<Rightarrow> Inl e | Inr req \<Rightarrow> fetch a req)"

definition post :: "string \<Rightarrow> json \<Rightarrow> world \<Rightarrow> response result \<times> world" where
  "post connectionName body w =
     (let a = script w (attempts w);
          w' = w\<lparr>clock := clock w + latency a, attempts := Suc (attempts w)\<rparr>
      in case prepare connectionName body a of
           Inl e \<Rightarrow> (Inl e, w')
         | Inr req \<Rightarrow> (fetch a req, w'\<lparr>sent := sent w @ [req]\<rparr>))"

section \<open>The MCP client\<close>

record client =
  cachedTools :: "string \<rightharpoonup> json"
  toolCacheExpiry :: "string \<rightharpoonup> nat"

definition CACHE_DURATION :: nat where
  "CACHE_DURATION = 5 * 60 * 1000"

definition new_client :: client where
  "new_client = \<lparr>cachedTools = Map.empty, toolCacheExpiry = Map.empty\<rparr>"

definition cacheTools :: "string \<Rightarrow> json \<Rightarrow> nat \<Rightarrow> client \<Rightarrow> client" where
  "cacheTools connectionName tools now c =
     c\<lparr>cachedTools := (cachedTools c)(connectionName \<mapsto> tools),
       toolCacheExpiry := (toolCacheExpiry c)(connectionName \<mapsto> now + CACHE_DURATION)\<rparr>"

definition clearCache :: "client \<Rightarrow> client" where
  "clearCache c = c\<lparr>cachedTools := Map.empty, toolCacheExpiry := Map.empty\<rparr>"

text \<open>
  The test \<open>cached && expiry && Date.now() < expiry\<close> of \<open>listTools\<close>: the cached
  value when the test passes. A missing entry reads as undefined, which is falsy.
\<close>

definition cache_lookup :: "client \<Rightarrow> nat \<Rightarrow> string \<Rightarrow> json option" where
  "cache_lookup c now connectionName =
     (case cachedTools c connectionName of
        None \<Rightarrow> None
      | Some cached \<Rightarrow>
          (case toolCacheExpiry c connectionName of
             None \<Rightarrow> None
           | Some expiry \<Rightarrow>
               if truthy cached \<and> expiry \<noteq> 0 \<and> now < expiry then Some cached else None))"

fun is_array :: "json \<Rightarrow> bool" where
  "is_array (JArr xs) = True"
| "is_array v = False"

definition tools_list :: json where
  "tools_list = JObj [(''method'', JStr ''tools/list'')]"

definition listTools :: "string \<Rightarrow> client \<Rightarrow> world \<Rightarrow> json \<times> client \<times> world" where
  "listTools connectionName c w =
     (case cache_lookup c (clock w) connectionName of
        Some cached \<Rightarrow> (cached, c, w)
      | None \<Rightarrow>
          (case post connectionName tools_list w of
             (Inl e, w') \<Rightarrow> (JArr [], c, w')
           | (Inr resp, w') \<Rightarrow>
               if \<not> resp_ok resp then (JArr [], c, w')
               else case resp_json resp of
                 Inl e \<Rightarrow> (JArr [], c, w')
               | Inr data \<Rightarrow>
                   (case js_get data ''tools'' of
                      Inl e \<Rightarrow> (JArr [], c, w')
                    | Inr data_tools \<Rightarrow>
                        (let tools = (if truthy data_tools then data_tools
                                      else if is_array data then data else JArr [])
                         in (tools, cacheTools connectionName tools (clock w') c, w')))))"



subsection \<open>Tools\<close>

text \<open>
  The \<open>execute\<close> closure of a tool, as data: a call of a registry tool through
  \<open>callTool\<close> with the captured connection and tool name, or one of the two adapters of
  the default tools.
\<close>

datatype executor = McpCall string json | WebSearch | WebFetch

record tool =
  tool_name :: string
  tool_description :: json
  tool_inputSchema :: zod
  tool_outputSchema :: zod
  tool_execute :: executor

definition convertToAiSdkTool :: "json \<Rightarrow> string \<Rightarrow> tool result" where
  "convertToAiSdkTool mcpTool connectionName =
     (case js_get mcpTool ''inputSchema'' of
        Inl e \<Rightarrow> Inl e
      | Inr schema \<Rightarrow>
          (case jsonSchemaToZod (js_or schema (JObj [])) of
             Inl e \<Rightarrow> Inl e
           | Inr inputSchema \<Rightarrow>
               (case js_get mcpTool ''name'' of
                  Inl e \<Rightarrow> Inl e
                | Inr nm \<Rightarrow>
                    (case qualified_name connectionName nm of
                       Inl e \<Rightarrow> Inl e
                     | Inr qualified \<Rightarrow>
                         (case js_get mcpTool ''description'' of
                            Inl e \<Rightarrow> Inl e
                          | Inr descr \<Rightarrow>
                              (case (if truthy descr then Inr descr
                                     else case template nm of
                                            Inl e \<Rightarrow> Inl e
                                          | Inr rendered \<Rightarrow> Inr (JStr (''MCP tool: '' @ rendered))) of
                                 Inl e \<Rightarrow> Inl e
                               | Inr description \<Rightarrow>
                                   Inr \<lparr>tool_name = qualified,
                                        tool_description = description,
                                        tool_inputSchema = inputSchema,
                                        tool_outputSchema = ZAny,
                                        tool_execute = McpCall connectionName nm\<rparr>))))))"

record McpConnectionConfig =
  cc_connectionName :: string
  cc_description :: "string option"
  cc_enabled :: "bool option"

text \<open>
  \<open>for (const mcpTool of mcpTools)\<close>: an array yields its elements and a string its
  characters; any other value is not iterable, a TypeError.
\<close>

fun js_iterate :: "json \<Rightarrow> json list result" where
  "js_iterate (JArr xs) = Inr xs"
| "js_iterate (JStr s) = Inr (map (\<lambda>c. JStr [c]) s)"
| "js_iterate v = Inl (JsError ''mcpTools is not iterable'')"

text \<open>
  The inner loop of \<open>getAllTools\<close>: the tools converted before the first descriptor
  whose conversion throws; the \<open>catch\<close> around the loop drops the rest.
\<close>

fun convert_each :: "string \<Rightarrow> json list \<Rightarrow> tool list" where
  "convert_each cn [] = []"
| "convert_each cn (mcpTool # rest) =
     (case convertToAiSdkTool mcpTool cn of
        Inl e \<Rightarrow> []
      | Inr t \<Rightarrow> t # convert_each cn rest)"

fun getAllTools :: "McpConnectionConfig list \<Rightarrow> client \<Rightarrow> world \<Rightarrow> tool list \<times> client \<times> world" where
  "getAllTools [] c w = ([], c, w)"
| "getAllTools (connection # rest) c w =
     (if cc_enabled connection \<noteq> Some False then
        (case listTools (cc_connectionName connection) c w of
           (mcpTools, c', w') \<Rightarrow>
             (let converted = (case js_iterate mcpTools of
                                 Inl e \<Rightarrow> []
                               | Inr xs \<Rightarrow> convert_each (cc_connectionName connection) xs)
              in case getAllTools rest c' w' of
                   (others, c'', w'') \<Rightarrow> (converted @ others, c'', w'')))
      else getAllTools rest c w)"

text \<open>\<open>DatabricksMCPClient.initialize\<close>: pre-fetch the tools of the enabled connections.\<close>

fun mcpClient_initialize :: "McpConnectionConfig list \<Rightarrow> client \<Rightarrow> world \<Rightarrow> client \<times> world" where
  "mcpClient_initialize [] c w = (c, w)"
| "mcpClient_initialize (connection # rest) c w =
     (if cc_enabled connection \<noteq> Some False then
        (case listTools (cc_connectionName connection) c w of
           (mcpTools, c', w') \<Rightarrow> mcpClient_initialize rest c' w')
      else mcpClient_initialize rest c w)"

section \<open>Connection configuration\<close>

datatype connection_type = External | System

record McpConnection =
  conn_name :: string
  conn_description :: string
  conn_enabled :: bool
  conn_type :: connection_type
  conn_config :: json

text \<open>
  The configuration as the provider sees it at a call: the value of
  \<open>process.env.MCP_ENABLED\<close> then (\<open>None\<close> when unset), and the connection table that
  was built when the module was loaded.
\<close>

record configuration =
  MCP_ENABLED :: "string option"
  connections :: "McpConnection list"

text \<open>
  \<open>DEFAULT_MCP_CONNECTIONS\<close>, from the value of \<open>process.env.MCP_ENABLED\<close> at load time
  and the connection's \<open>config\<close> object (two numbers parsed from the environment).
\<close>

definition DEFAULT_MCP_CONNECTIONS :: "string option \<Rightarrow> json \<Rightarrow> McpConnection list" where
  "DEFAULT_MCP_CONNECTIONS mcp_enabled cfg =
     [\<lparr>conn_name = ''you_mcp'',
       conn_description = ''Unity Catalog MCP server for web search, content fetching, and real-time information'',
       conn_enabled = (mcp_enabled \<noteq> Some ''false''),
       conn_type = External,
       conn_config = cfg\<rparr>]"

definition getEnabledMcpConnections :: "configuration \<Rightarrow> McpConnection list" where
  "getEnabledMcpConnections cfg = filter conn_enabled (connections cfg)"

definition isMcpEnabled :: "configuration \<Rightarrow> bool" where
  "isMcpEnabled cfg =
     (MCP_ENABLED cfg \<noteq> Some ''false'' \<and> length (getEnabledMcpConnections cfg) > 0)"

section \<open>The tool provider\<close>

record provider =
  tools :: "(string \<times> tool) list"
  initialized :: bool

text \<open>The provider, the client it uses and the world they run in.\<close>

record system =
  provider :: provider
  mcpClient :: client
  net :: world

definition new_provider :: provider where
  "new_provider = \<lparr>tools = [], initialized = False\<rparr>"

subsection \<open>Default tools\<close>





definition web_search_tool :: tool where
  "web_search_tool =
     \<lparr>tool_name = ''web_search'',
      tool_description = JStr ''Search the web for current information, news, and recent events'',
      tool_inputSchema =
        ZObject [(''query'', ZDescribe ZString ''The search query''),
                 (''maxResults'',
                  ZDescribe (ZDefault (ZOptional ZNumber) (JNum ''10'' True))
                    ''Maximum number of results to return'')] False,
      tool_outputSchema =
        ZObject [(''results'',
                  ZArray (ZObject [(''title'', ZString), (''url'', ZString),
                                   (''snippet'', ZString),
                                   (''publishedDate'', ZOptional ZString)] False))] False,
      tool_execute = WebSearch\<rparr>"

definition web_fetch_tool :: tool where
  "web_fetch_tool =
     \<lparr>tool_name = ''web_fetch'',
      tool_description = JStr ''Fetch and analyze content from a web page'',
      tool_inputSchema =
        ZObject [(''url'', ZDescribe ZUrl ''The URL to fetch''),
                 (''extractText'',
                  ZDescribe (ZDefault (ZOptional ZBoolean) (JBool True))
                    ''Whether to extract text content''),
                 (''summarize'',
                  ZDescribe (ZDefault (ZOptional ZBoolean) (JBool False))
                    ''Whether to summarize the content'')] False,
      tool_outputSchema =
        ZObject [(''title'', ZOptional ZString), (''content'', ZString),
                 (''url'', ZString), (''fetchedAt'', ZString)] False,
      tool_execute = WebFetch\<rparr>"

definition addWebSearchTool :: "provider \<Rightarrow> provider" where
  "addWebSearchTool p = p\<lparr>tools := map_set (tools p) ''web_search'' web_search_tool\<rparr>"

definition addWebFetchTool :: "provider \<Rightarrow> provider" where
  "addWebFetchTool p = p\<lparr>tools := map_set (tools p) ''web_fetch'' web_fetch_tool\<rparr>"

definition addDefaultTools :: "provider \<Rightarrow> provider" where
  "addDefaultTools p = addWebFetchTool (addWebSearchTool p)"

subsection \<open>Loading, initialising, refreshing\<close>

definition client_config :: "McpConnection \<Rightarrow> McpConnectionConfig" where
  "client_config conn =
     \<lparr>cc_connectionName = conn_name conn,
      cc_description = Some (conn_description conn),
      cc_enabled = Some (conn_enabled conn)\<rparr>"

text \<open>
  The loop of \<open>loadTools\<close> over the connections. \<open>getAllTools\<close> catches what its own
  loop throws, so the \<open>catch\<close> of \<open>loadTools\<close> has nothing to catch.
\<close>

fun load_each :: "McpConnection list \<Rightarrow> system \<Rightarrow> system" where
  "load_each [] s = s"
| "load_each (connection # rest) s =
     (case getAllTools [client_config connection] (mcpClient s) (net s) of
        (loaded, c', w') \<Rightarrow>
          (let p1 = foldl (\<lambda>p t. p\<lparr>tools := map_set (tools p) (tool_name t) t\<rparr>)
                      (provider s) loaded;
               p2 = (if length loaded = 0 \<and> conn_name connection = ''you_mcp''
                     then addDefaultTools p1 else p1)
           in load_each rest \<lparr>provider = p2, mcpClient = c', net = w'\<rparr>))"

definition loadTools :: "McpConnection list \<Rightarrow> system \<Rightarrow> system" where
  "loadTools conns s = load_each conns (s\<lparr>provider := (provider s)\<lparr>tools := []\<rparr>\<rparr>)"

definition initialize :: "configuration \<Rightarrow> system \<Rightarrow> system" where
  "initialize cfg s =
     (if initialized (provider s) then s
      else if \<not> isMcpEnabled cfg then s\<lparr>provider := (provider s)\<lparr>initialized := True\<rparr>\<rparr>
      else
        (let conns = getEnabledMcpConnections cfg
         in case mcpClient_initialize (map client_config conns) (mcpClient s) (net s) of
              (c', w') \<Rightarrow>
                (let s' = loadTools conns (s\<lparr>mcpClient := c', net := w'\<rparr>)
                 in s'\<lparr>provider := (provider s')\<lparr>initialized := True\<rparr>\<rparr>)))"

definition refresh :: "configuration \<Rightarrow> system \<Rightarrow> system" where
  "refresh cfg s =
     initialize cfg
       (s\<lparr>mcpClient := clearCache (mcpClient s),
          provider := (provider s)\<lparr>initialized := False\<rparr>\<rparr>)"

subsection \<open>Reading the catalog\<close>

definition getTools :: "provider \<Rightarrow> (string \<times> tool) list" where
  "getTools p =
     (if \<not> initialized p then []
      else foldl (\<lambda>acc (n, t). object_assign acc n t) [] (tools p))"

definition getTool :: "provider \<Rightarrow> string \<Rightarrow> tool option" where
  "getTool p n = map_of (tools p) n"

definition hasTool :: "provider \<Rightarrow> string \<Rightarrow> bool" where
  "hasTool p n = (n \<in> fst ` set (tools p))"

definition getToolNames :: "provider \<Rightarrow> string list" where
  "getToolNames p = map fst (tools p)"

section \<open>Example environments\<close>

text \<open>
  Concrete attempts and worlds on which the theorems below are run: a credential
  provider that throws (once with a message, once with an \<open>Error\<close> whose message is
  empty), a credential with a line feed inside, a registry that answers 500, and a
  registry that answers 200 with a given JSON body. \<open>always a\<close> is a world in which
  every attempt goes as \<open>a\<close>; its date rendering is a stand-in for the platform's.
\<close>

definition no_credentials :: attempt where
  "no_credentials =
     \<lparr>token = Inl (JsError ''No Databricks authentication configured''),
      host = Inr ''https://workspace.example.com'',
      fetch = (\<lambda>req. Inl (JsError ''fetch failed'')),
      latency = 5\<rparr>"

definition http_500 :: attempt where
  "http_500 =
     \<lparr>token = Inr ''secret'',
      host = Inr ''https://workspace.example.com'',
      fetch = (\<lambda>req. Inr \<lparr>resp_ok = False, resp_statusText = ''Internal Server Error'',
                             resp_text = Inr ''upstream failure'',
                             resp_json = Inl (JsError ''Unexpected token u in JSON'')\<rparr>),
      latency = 40\<rparr>"

definition http_200 :: "json \<Rightarrow> attempt" where
  "http_200 data =
     \<lparr>token = Inr ''secret'',
      host = Inr ''https://workspace.example.com'',
      fetch = (\<lambda>req. Inr \<lparr>resp_ok = True, resp_statusText = ''OK'',
                             resp_text = Inr [], resp_json = Inr data\<rparr>),
      latency = 40\<rparr>"


definition broken_token :: attempt where
  "broken_token = http_500\<lparr>token := Inr (''sec'' @ [CHR 0x0A] @ ''ret'')\<rparr>"

definition always :: "attempt \<Rightarrow> world" where
  "always a =
     \<lparr>clock = 1000000, script = (\<lambda>i. a), attempts = 0, sent = [],
      toISOString = (\<lambda>t. ''T+'' @ show_nat t)\<rparr>"

definition new_system :: "world \<Rightarrow> system" where
  "new_system w = \<lparr>provider = new_provider, mcpClient = new_client, net = w\<rparr>"

definition default_configuration :: configuration where
  "default_configuration =
     \<lparr>MCP_ENABLED = None,
      connections = DEFAULT_MCP_CONNECTIONS None
                      (JObj [(''maxResults'', JNum ''10'' True),
                             (''timeout'', JNum ''30000'' True)])\<rparr>"

definition disabled_configuration :: configuration where
  "disabled_configuration = default_configuration\<lparr>MCP_ENABLED := Some ''false''\<rparr>"

text \<open>The request that the examples with the credential \<open>secret\<close> hand to \<open>fetch\<close>.\<close>

definition example_request :: "json \<Rightarrow> request" where
  "example_request body =
     \<lparr>req_url = ''https://workspace.example.com/api/2.0/mcp/external/you_mcp'',
      req_method = ''POST'',
      req_headers = [(''authorization'', ''Bearer secret''),
                     (''content-type'', ''application/json'')],
      req_body = body\<rparr>"

section \<open>Outcomes of a discovery attempt\<close>

text \<open>
  The ways an attempt can go, as the properties below name them, read off what the
  \<open>await\<close> of \<open>fetch\<close> yields to the code. The request fails when one of the statements
  before \<open>fetch\<close> throws, when \<open>fetch\<close> rejects, when the status is not a success, or
  when the body cannot be read as JSON. Otherwise a body is received; it has neither of the two accepted shapes when
  it is not an array and not an object with a \<open>tools\<close> property.
\<close>

definition request_failed :: "response result \<Rightarrow> bool" where
  "request_failed r =
     (case r of
        Inl e \<Rightarrow> True
      | Inr resp \<Rightarrow>
          \<not> resp_ok resp \<or> (case resp_json resp of Inl e \<Rightarrow> True | Inr data \<Rightarrow> False))"

definition received_body :: "response result \<Rightarrow> json option" where
  "received_body r =
     (case r of
        Inl e \<Rightarrow> None
      | Inr resp \<Rightarrow>
          if resp_ok resp
          then (case resp_json resp of Inl e \<Rightarrow> None | Inr data \<Rightarrow> Some data)
          else None)"

definition neither_shape :: "json \<Rightarrow> bool" where
  "neither_shape data =
     (\<not> is_array data \<and> (case data of JObj kvs \<Rightarrow> map_of kvs ''tools'' = None | _ \<Rightarrow> True))"

section \<open>Properties of names and of the translator\<close>

lemma replace_non_word_id: "\<forall>x \<in> set s. word_char x \<Longrightarrow> replace_non_word s = s"
  by (induction s) (auto simp: replace_non_word_def)

lemma word_char_replace: "\<forall>x \<in> set (replace_non_word s). word_char x"
  by (auto simp: replace_non_word_def word_char_def)

lemma replace_non_word_append:
  "replace_non_word (a @ b) = replace_non_word a @ replace_non_word b"
  by (simp add: replace_non_word_def)

lemma replace_non_word_length: "length (replace_non_word s) = length s"
  by (simp add: replace_non_word_def)

lemma replace_separator: "replace_non_word ''_'' = ''_''"
  by (simp add: replace_non_word_def word_char_def)

lemma underscore_split:
  assumes "c @ CHR ''_'' # n = c' @ CHR ''_'' # n'"
    and "CHR ''_'' \<notin> set c" and "CHR ''_'' \<notin> set c'"
  shows "c = c' \<and> n = n'"
proof -
  have "takeWhile (\<lambda>x. x \<noteq> CHR ''_'') (c @ CHR ''_'' # n) = c"
    using assms(2) by (auto simp: takeWhile_tail)
  moreover have "takeWhile (\<lambda>x. x \<noteq> CHR ''_'') (c' @ CHR ''_'' # n') = c'"
    using assms(3) by (auto simp: takeWhile_tail)
  ultimately have "c = c'" using assms(1) by simp
  with assms(1) show ?thesis by simp
qed

lemma convert_name:
  "convertToAiSdkTool mcpTool c = Inr t \<Longrightarrow> js_get mcpTool ''name'' = Inr (JStr n)
   \<Longrightarrow> tool_name t = replace_non_word (c @ ''_'' @ n)"
  by (auto simp: convertToAiSdkTool_def qualified_name_def split: sum.splits if_splits)

lemma qualified_parts:
  "replace_non_word (c @ ''_'' @ n) = replace_non_word c @ CHR ''_'' # replace_non_word n"
  by (simp add: replace_non_word_def word_char_def)

lemma qualified_name_equal:
  assumes eq: "replace_non_word (c' @ ''_'' @ n') = replace_non_word (c @ ''_'' @ n)"
    and al: "length c' = length c \<or> (\<forall>x \<in> set (c @ c'). word_char x \<and> x \<noteq> CHR ''_'')"
  shows "replace_non_word c' = replace_non_word c \<and> replace_non_word n' = replace_non_word n"
proof -
  have e: "replace_non_word c' @ CHR ''_'' # replace_non_word n'
         = replace_non_word c @ CHR ''_'' # replace_non_word n"
    using eq by (simp only: qualified_parts)
  from al show ?thesis
  proof
    assume "length c' = length c"
    then have "length (replace_non_word c') = length (replace_non_word c)"
      by (simp add: replace_non_word_length)
    with e show ?thesis by simp
  next
    assume a: "\<forall>x \<in> set (c @ c'). word_char x \<and> x \<noteq> CHR ''_''"
    then have "replace_non_word c = c" "replace_non_word c' = c'"
      by (auto intro: replace_non_word_id)
    moreover have "CHR ''_'' \<notin> set c" "CHR ''_'' \<notin> set c'" using a by auto
    ultimately show ?thesis using e underscore_split[of c' "replace_non_word n'" c "replace_non_word n"]
      by simp
  qed
qed




lemma insert_index_map_of:
  "map_of (insert_index i k v obj) k' = (if k' = k then Some v else map_of obj k')"
    if "k \<notin> fst ` set obj"
  using that
proof (induction obj)
  case Nil
  show ?case by simp
next
  case (Cons a obj)
  obtain k0 v0 where a: "a = (k0, v0)" by (cases a)
  show ?case using Cons by (auto simp: a split: option.splits)
qed

lemma replace_map_of:
  "map_of (map (\<lambda>(k', v'). if k' = k then (k, v) else (k', v')) obj) k'
   = (if k' = k then map_option (\<lambda>x. v) (map_of obj k) else map_of obj k')"
proof (induction obj)
  case Nil
  show ?case by simp
next
  case (Cons a obj)
  obtain k0 v0 where a: "a = (k0, v0)" by (cases a)
  show ?case using Cons by (cases "k0 = k"; cases "k' = k") (auto simp: a)
qed



lemma object_assign_map_of:
  "map_of (object_assign obj k v) k'
   = (if k = ''__proto__'' then map_of obj k' else if k' = k then Some v else map_of obj k')"
proof (cases "k = ''__proto__''")
  case True
  then show ?thesis by (simp add: object_assign_def)
next
  case False
  show ?thesis
  proof (cases "k \<in> fst ` set obj")
    case True
    then obtain x where "map_of obj k = Some x"
      by (metis domIff dom_map_of_conv_image_fst not_Some_eq)
    then show ?thesis using False True replace_map_of[of k v obj k']
      by (simp add: object_assign_def)
  next
    case nk: False
    then have n: "map_of obj k = None" by (simp add: map_of_eq_None_iff)
    show ?thesis
    proof (cases "array_index k")
      case None
      then show ?thesis using False nk n
        by (auto simp: object_assign_def map_add_def split: option.splits)
    next
      case (Some i)
      then show ?thesis using False nk insert_index_map_of[OF nk, of i v k']
        by (simp add: object_assign_def)
    qed
  qed
qed


lemma build_object_other:
  "k' \<notin> fst ` set kzs \<Longrightarrow>
   map_of (foldl (\<lambda>obj (key, z). object_assign obj key z) acc kzs) k' = map_of acc k'"
proof (induction kzs arbitrary: acc)
  case Nil
  show ?case by simp
next
  case (Cons kz kzs)
  obtain k z where kz: "kz = (k, z)" by (cases kz)
  have "k' \<noteq> k" "k' \<notin> fst ` set kzs" using Cons.prems by (auto simp: kz)
  then show ?case unfolding kz using Cons.IH[of "object_assign acc k z"]
    by (simp add: object_assign_map_of)
qed

lemma build_object_map_of:
  assumes "distinct (map fst kzs)" "k' \<noteq> ''__proto__''" "k' \<in> fst ` set kzs"
  shows "map_of (foldl (\<lambda>obj (key, z). object_assign obj key z) acc kzs) k' = map_of kzs k'"
  using assms
proof (induction kzs arbitrary: acc)
  case Nil
  then show ?case by simp
next
  case (Cons kz kzs)
  obtain k z where kz: "kz = (k, z)" by (cases kz)
  show ?case
  proof (cases "k' = k")
    case True
    have nk: "k' \<notin> fst ` set kzs" using Cons.prems(1) True by (simp add: kz)
    show ?thesis
      unfolding kz using build_object_other[OF nk, of "object_assign acc k z"] True Cons.prems(2)
      by (simp add: object_assign_map_of)
  next
    case False
    then have "k' \<in> fst ` set kzs" using Cons.prems(3) by (auto simp: kz)
    moreover have "distinct (map fst kzs)" using Cons.prems(1) by simp
    ultimately show ?thesis
      unfolding kz using Cons.IH[of "object_assign acc k z"] Cons.prems(2) False
      by simp
  qed
qed





section \<open>Properties of discovery\<close>

lemma post_attempts: "post cn body w = (r, w') \<Longrightarrow> attempts w' = Suc (attempts w)"
  by (auto simp: post_def Let_def split: sum.splits)

lemma post_clock:
  "post cn body w = (r, w') \<Longrightarrow> clock w' = clock w + latency (script w (attempts w))"
  by (auto simp: post_def Let_def split: sum.splits)

lemma post_sent:
  "post cn body w = (r, w') \<Longrightarrow>
   sent w' = (case prepare cn body (script w (attempts w)) of
                Inl e \<Rightarrow> sent w
              | Inr req \<Rightarrow> sent w @ [req])"
  by (auto simp: post_def Let_def split: sum.splits)

lemma post_result: "fst (post cn body w) = response_of cn body (script w (attempts w))"
  by (auto simp: post_def response_of_def Let_def split: sum.splits)

lemma listTools_hit:
  "cache_lookup c (clock w) cn = Some cached \<Longrightarrow> listTools cn c w = (cached, c, w)"
  by (simp add: listTools_def)



lemma listTools_miss_world:
  assumes "cache_lookup c (clock w) cn = None"
  shows "snd (snd (listTools cn c w)) = snd (post cn tools_list w)"
  using assms by (auto simp: listTools_def Let_def split: prod.splits sum.splits)

lemma listTools_cases:
  assumes "cache_lookup c (clock w) cn = None"
    and "post cn tools_list w = (r, w')"
  shows "listTools cn c w =
     (case r of
        Inl e \<Rightarrow> (JArr [], c, w')
      | Inr resp \<Rightarrow>
          if \<not> resp_ok resp then (JArr [], c, w')
          else case resp_json resp of
            Inl e \<Rightarrow> (JArr [], c, w')
          | Inr data \<Rightarrow>
              (case js_get data ''tools'' of
                 Inl e \<Rightarrow> (JArr [], c, w')
               | Inr dt \<Rightarrow>
                   (let ts = (if truthy dt then dt else if is_array data then data else JArr [])
                    in (ts, cacheTools cn ts (clock w') c, w'))))"
  using assms by (auto simp: listTools_def Let_def split: sum.splits)

lemma listTools_failed:
  assumes miss: "cache_lookup c (clock w) cn = None"
    and f: "request_failed (response_of cn tools_list (script w (attempts w)))"
  shows "fst (listTools cn c w) = JArr [] \<and> fst (snd (listTools cn c w)) = c"
proof -
  obtain r w' where p: "post cn tools_list w = (r, w')"
    by (cases "post cn tools_list w")
  have r: "r = response_of cn tools_list (script w (attempts w))"
    using post_result[of cn tools_list w] p by simp
  show ?thesis
    unfolding listTools_cases[OF miss p] using f r
    by (auto simp: request_failed_def split: sum.splits)
qed

lemma listTools_body:
  assumes miss: "cache_lookup c (clock w) cn = None"
    and b: "received_body (response_of cn tools_list (script w (attempts w))) = Some data"
  shows "listTools cn c w =
     (case js_get data ''tools'' of
        Inl e \<Rightarrow> (JArr [], c, snd (post cn tools_list w))
      | Inr dt \<Rightarrow>
          (let ts = (if truthy dt then dt else if is_array data then data else JArr [])
           in (ts, cacheTools cn ts (clock w + latency (script w (attempts w))) c,
               snd (post cn tools_list w))))"
proof -
  obtain r w' where p: "post cn tools_list w = (r, w')"
    by (cases "post cn tools_list w")
  have r: "r = response_of cn tools_list (script w (attempts w))"
    using post_result[of cn tools_list w] p by simp
  show ?thesis
    unfolding listTools_cases[OF miss p] using b r post_clock[OF p]
    by (auto simp: received_body_def p split: sum.splits if_splits)
qed

lemma neither_shape_tools:
  "neither_shape data \<Longrightarrow>
   js_get data ''tools'' = Inl type_error \<or> js_get data ''tools'' = Inr JUndefined"
  by (cases data) (auto simp: neither_shape_def)

lemma listTools_neither:
  assumes miss: "cache_lookup c (clock w) cn = None"
    and b: "received_body (response_of cn tools_list (script w (attempts w))) = Some data"
    and n: "neither_shape data"
  shows "fst (listTools cn c w) = JArr []"
  using neither_shape_tools[OF n] n
  unfolding listTools_body[OF miss b]
  by (auto simp: neither_shape_def Let_def)

lemma is_array_truthy: "is_array v \<Longrightarrow> truthy v"
  by (cases v) auto

lemma listTools_stores_truthy:
  assumes "\<forall>k v. cachedTools c k = Some v \<longrightarrow> truthy v"
  shows "\<forall>k v. cachedTools (fst (snd (listTools cn c w))) k = Some v \<longrightarrow> truthy v"
proof (cases "cache_lookup c (clock w) cn")
  case (Some cached)
  then show ?thesis using assms by (simp add: listTools_hit)
next
  case None
  obtain r w' where p: "post cn tools_list w = (r, w')"
    by (cases "post cn tools_list w")
  show ?thesis
    unfolding listTools_cases[OF None p] using assms
    by (auto simp: cacheTools_def Let_def is_array_truthy split: sum.splits)
qed

lemma listTools_miss_sent:
  assumes miss: "cache_lookup c (clock w) cn = None"
  shows "sent (snd (snd (listTools cn c w))) =
           (case prepare cn tools_list (script w (attempts w)) of
              Inl e \<Rightarrow> sent w
            | Inr req \<Rightarrow> sent w @ [req])"
    and "attempts (snd (snd (listTools cn c w))) = Suc (attempts w)"
proof -
  obtain r w' where p: "post cn tools_list w = (r, w')"
    by (cases "post cn tools_list w")
  have w': "snd (snd (listTools cn c w)) = w'"
    using listTools_miss_world[OF miss] p by simp
  show "sent (snd (snd (listTools cn c w))) =
           (case prepare cn tools_list (script w (attempts w)) of
              Inl e \<Rightarrow> sent w
            | Inr req \<Rightarrow> sent w @ [req])"
    unfolding w' using post_sent[OF p] .
  show "attempts (snd (snd (listTools cn c w))) = Suc (attempts w)"
    unfolding w' using post_attempts[OF p] .
qed

lemma clearCache_new: "clearCache c = new_client"
  by (simp add: clearCache_def new_client_def)

lemma cache_lookup_new: "cache_lookup new_client now cn = None"
  by (simp add: cache_lookup_def new_client_def)

lemma listTools_attempts_mono: "attempts w \<le> attempts (snd (snd (listTools cn c w)))"
proof (cases "cache_lookup c (clock w) cn")
  case None
  then show ?thesis using listTools_miss_sent(2)[OF None] by simp
next
  case (Some cached)
  then show ?thesis by (simp add: listTools_hit)
qed

lemma mcpClient_initialize_mono:
  "attempts w \<le> attempts (snd (mcpClient_initialize cfgs c w))"
proof (induction cfgs arbitrary: c w)
  case Nil
  show ?case by simp
next
  case (Cons a cfgs)
  show ?case
  proof (cases "cc_enabled a \<noteq> Some False")
    case True
    obtain r c' w' where l: "listTools (cc_connectionName a) c w = (r, c', w')"
      by (cases "listTools (cc_connectionName a) c w")
    have "attempts w \<le> attempts w'"
      using listTools_attempts_mono[of w "cc_connectionName a" c] l by simp
    also have "\<dots> \<le> attempts (snd (mcpClient_initialize cfgs c' w'))" by (rule Cons)
    finally show ?thesis using True l by simp
  next
    case False
    then show ?thesis using Cons[of w c] by simp
  qed
qed

lemma getAllTools_mono: "attempts w \<le> attempts (snd (snd (getAllTools cfgs c w)))"
proof (induction cfgs arbitrary: c w)
  case Nil
  show ?case by simp
next
  case (Cons a cfgs)
  show ?case
  proof (cases "cc_enabled a \<noteq> Some False")
    case True
    obtain r c' w' where l: "listTools (cc_connectionName a) c w = (r, c', w')"
      by (cases "listTools (cc_connectionName a) c w")
    have "attempts w \<le> attempts w'"
      using listTools_attempts_mono[of w "cc_connectionName a" c] l by simp
    also have "\<dots> \<le> attempts (snd (snd (getAllTools cfgs c' w')))" by (rule Cons)
    finally show ?thesis using True l by (auto simp: Let_def split: prod.splits)
  next
    case False
    then show ?thesis using Cons[of w c] by simp
  qed
qed

section \<open>Properties of the catalog\<close>

lemma enabled_member:
  "getEnabledMcpConnections cfg = conns \<Longrightarrow> conn \<in> set conns \<Longrightarrow> conn_enabled conn"
  by (auto simp: getEnabledMcpConnections_def)

lemma load_single_empty:
  assumes "conn_enabled conn" "conn_name conn = ''you_mcp''"
    and "listTools ''you_mcp'' c w = (JArr [], c', w')"
  shows "load_each [conn] \<lparr>provider = p, mcpClient = c, net = w\<rparr>
       = \<lparr>provider = addDefaultTools p, mcpClient = c', net = w'\<rparr>"
  using assms by (simp add: client_config_def)

lemma default_names:
  "tools (addDefaultTools (p\<lparr>tools := []\<rparr>)) = [(''web_search'', web_search_tool), (''web_fetch'', web_fetch_tool)]"
  by (simp add: addDefaultTools_def addWebSearchTool_def addWebFetchTool_def)

lemma initialize_flag: "initialized (provider (initialize cfg s))"
  by (auto simp: initialize_def Let_def split: prod.splits)

lemma load_each_mono: "attempts (net s) \<le> attempts (net (load_each conns s))"
proof (induction conns arbitrary: s)
  case Nil
  show ?case by simp
next
  case (Cons a conns)
  obtain l c' w' where g: "getAllTools [client_config a] (mcpClient s) (net s) = (l, c', w')"
    by (cases "getAllTools [client_config a] (mcpClient s) (net s)")
  have "attempts (net s) \<le> attempts w'"
    using getAllTools_mono[of "net s" "[client_config a]" "mcpClient s"] g by simp
  then show ?case
    using g Cons[of "\<lparr>provider = (let p1 = foldl (\<lambda>p t. p\<lparr>tools := map_set (tools p) (tool_name t) t\<rparr>)
                      (provider s) l
           in if length l = 0 \<and> conn_name a = ''you_mcp'' then addDefaultTools p1 else p1), mcpClient = c', net = w'\<rparr>"]
    by (simp add: Let_def del: getAllTools.simps)
qed

lemma prefetch_live:
  assumes "cfgs \<noteq> []" "cc_enabled (hd cfgs) \<noteq> Some False"
  shows "attempts w < attempts (snd (mcpClient_initialize cfgs new_client w))"
proof -
  obtain a rest where cf: "cfgs = a # rest" using assms(1) by (cases cfgs) auto
  obtain r c' w' where l: "listTools (cc_connectionName a) new_client w = (r, c', w')"
    by (cases "listTools (cc_connectionName a) new_client w")
  have "attempts w' = Suc (attempts w)"
    using listTools_miss_sent(2)[of new_client w "cc_connectionName a"] cache_lookup_new l by simp
  moreover have "attempts w' \<le> attempts (snd (mcpClient_initialize rest c' w'))"
    by (rule mcpClient_initialize_mono)
  ultimately show ?thesis using assms(2) l cf by simp
qed

lemma refresh_disabled:
  "\<not> isMcpEnabled cfg \<Longrightarrow>
   refresh cfg s = s\<lparr>mcpClient := new_client, provider := (provider s)\<lparr>initialized := True\<rparr>\<rparr>"
  by (simp add: refresh_def initialize_def clearCache_new)

lemma provider_reset: "p\<lparr>initialized := False, tools := []\<rparr> = new_provider"
  by (cases p) (simp add: new_provider_def)

lemma initialize_fresh:
  "isMcpEnabled cfg \<Longrightarrow>
   initialize cfg (new_system w) =
     (case mcpClient_initialize (map client_config (getEnabledMcpConnections cfg)) new_client w of
        (c', w') \<Rightarrow>
          (let s' = load_each (getEnabledMcpConnections cfg)
                      \<lparr>provider = new_provider, mcpClient = c', net = w'\<rparr>
           in s'\<lparr>provider := (provider s')\<lparr>initialized := True\<rparr>\<rparr>))"
  by (simp add: initialize_def new_system_def loadTools_def Let_def new_provider_def
      split: prod.splits)

lemma refresh_enabled:
  "isMcpEnabled cfg \<Longrightarrow> refresh cfg s = initialize cfg (new_system (net s))"
  unfolding initialize_fresh
  by (cases s) (simp add: refresh_def initialize_def clearCache_new loadTools_def
      provider_reset Let_def split: prod.splits)

lemma refresh_live:
  assumes "isMcpEnabled cfg"
  shows "attempts (net s) < attempts (net (refresh cfg s))"
proof -
  let ?conns = "getEnabledMcpConnections cfg"
  have ne: "?conns \<noteq> []" using assms by (auto simp: isMcpEnabled_def)
  then have "conn_enabled (hd ?conns)"
    using enabled_member[of cfg ?conns "hd ?conns"] by simp
  then have h: "cc_enabled (hd (map client_config ?conns)) \<noteq> Some False"
    using ne by (simp add: hd_map client_config_def)
  obtain c' w' where m: "mcpClient_initialize (map client_config ?conns) new_client (net s) = (c', w')"
    by (cases "mcpClient_initialize (map client_config ?conns) new_client (net s)")
  have "attempts (net s) < attempts w'"
    using prefetch_live[of "map client_config ?conns" "net s"] ne h m by simp
  also have "\<dots> \<le> attempts (net (load_each ?conns
       \<lparr>provider = new_provider, mcpClient = c', net = w'\<rparr>))"
    using load_each_mono[of "\<lparr>provider = new_provider, mcpClient = c', net = w'\<rparr>" ?conns]
    by simp
  finally show ?thesis
    unfolding refresh_enabled[OF assms] initialize_fresh[OF assms] using m by (simp add: Let_def)
qed



lemma map_set_map_of:
  "map_of (map_set kvs k v) n = (if n = k then Some v else map_of kvs n)"
  by (induction kvs) auto

lemma map_set_keys:
  "map fst (map_set kvs k v)
   = (if k \<in> fst ` set kvs then map fst kvs else map fst kvs @ [k])"
  by (induction kvs) fastforce+

lemma map_set_distinct:
  "distinct (map fst kvs) \<Longrightarrow> distinct (map fst (map_set kvs k v))"
  by (simp add: map_set_keys)

lemma getTools_map_of:
  assumes "initialized p" "distinct (map fst (tools p))" "n \<noteq> ''__proto__''"
  shows "map_of (getTools p) n = map_of (tools p) n"
proof (cases "n \<in> fst ` set (tools p)")
  case True
  then show ?thesis
    using assms build_object_map_of[of "tools p" n "[]"] by (simp add: getTools_def)
next
  case False
  then have "map_of (tools p) n = None" by (simp add: map_of_eq_None_iff)
  then show ?thesis
    using assms(1) False build_object_other[of n "tools p" "[]"] by (simp add: getTools_def)
qed

lemma default_tools:
  "tools (addDefaultTools new_provider)
   = [(''web_search'', web_search_tool), (''web_fetch'', web_fetch_tool)]"
  by (simp add: addDefaultTools_def addWebSearchTool_def addWebFetchTool_def new_provider_def)

section \<open>The claims\<close>

subsection \<open>Evaluations on the example environments\<close>

lemma default_connections:
  "getEnabledMcpConnections default_configuration = connections default_configuration"
  "isMcpEnabled default_configuration"
  "connections default_configuration =
     [\<lparr>conn_name = ''you_mcp'',
       conn_description = ''Unity Catalog MCP server for web search, content fetching, and real-time information'',
       conn_enabled = True, conn_type = External,
       conn_config = JObj [(''maxResults'', JNum ''10'' True),
                           (''timeout'', JNum ''30000'' True)]\<rparr>]"
  by (simp_all add: isMcpEnabled_def getEnabledMcpConnections_def default_configuration_def
      DEFAULT_MCP_CONNECTIONS_def)

lemma disabled_connections: "\<not> isMcpEnabled disabled_configuration"
  by (simp add: isMcpEnabled_def disabled_configuration_def)

lemma secret_headers:
  "normalize_header_value ''Bearer secret'' = ''Bearer secret''"
  "valid_header_value ''Bearer secret''"
  by (simp_all add: normalize_header_value_def valid_header_value_def http_whitespace_def)

lemma prepare_500: "prepare ''you_mcp'' body http_500 = Inr (example_request body)"
  by (simp add: prepare_def getAuthHeaders_def getBaseUrl_def http_500_def secret_headers
      example_request_def)

lemma prepare_200: "prepare ''you_mcp'' body (http_200 data) = Inr (example_request body)"
  by (simp add: prepare_def getAuthHeaders_def getBaseUrl_def http_200_def secret_headers
      example_request_def)

lemma prepare_broken: "prepare cn body broken_token = Inl (JsError ''Headers.set: invalid header value'')"
  by (simp add: prepare_def getAuthHeaders_def broken_token_def http_500_def
      normalize_header_value_def valid_header_value_def http_whitespace_def)

lemma prepare_none:
  "prepare cn body no_credentials = Inl (JsError ''No Databricks authentication configured'')"
  by (simp add: prepare_def getAuthHeaders_def no_credentials_def)

lemma list_500:
  "listTools ''you_mcp'' new_client (always http_500) =
     (JArr [], new_client,
      (always http_500)\<lparr>clock := 1000040, attempts := 1,
         sent := [example_request tools_list]\<rparr>)"
  by (simp add: listTools_def cache_lookup_new post_def always_def prepare_500)
     (simp add: http_500_def always_def)

lemma list_500_again:
  "listTools ''you_mcp'' new_client
     ((always http_500)\<lparr>clock := 1000040, attempts := 1,
         sent := [example_request tools_list]\<rparr>) =
     (JArr [], new_client,
      (always http_500)\<lparr>clock := 1000080, attempts := 2,
         sent := [example_request tools_list, example_request tools_list]\<rparr>)"
  by (simp add: listTools_def cache_lookup_new post_def always_def prepare_500)
     (simp add: http_500_def always_def)

lemma list_200:
  "listTools ''you_mcp'' new_client (always (http_200 data)) =
     (case js_get data ''tools'' of
        Inl e \<Rightarrow> (JArr [], new_client,
          (always (http_200 data))\<lparr>clock := 1000040, attempts := 1,
            sent := [example_request tools_list]\<rparr>)
      | Inr dt \<Rightarrow>
         (let ts = (if truthy dt then dt else if is_array data then data else JArr [])
          in (ts, cacheTools ''you_mcp'' ts 1000040 new_client,
          (always (http_200 data))\<lparr>clock := 1000040, attempts := 1,
            sent := [example_request tools_list]\<rparr>)))"
  by (simp add: listTools_def cache_lookup_new post_def always_def prepare_200)
     (simp add: http_200_def always_def Let_def split: sum.splits)

lemma cached_hit:
  "truthy ts \<Longrightarrow> clock w < 1300040 \<Longrightarrow>
   listTools ''you_mcp'' (cacheTools ''you_mcp'' ts 1000040 new_client) w
     = (ts, cacheTools ''you_mcp'' ts 1000040 new_client, w)"
  by (simp add: listTools_def cache_lookup_def cacheTools_def CACHE_DURATION_def)

lemma default_object:
  "object_assign (object_assign [] ''web_search'' a) ''web_fetch'' b
     = [(''web_search'', a), (''web_fetch'', b)]"
  by (simp add: object_assign_def array_index_def is_digit_def)


lemma convert_named:
  "convertToAiSdkTool (JObj [(''name'', JStr n)]) c =
     Inr \<lparr>tool_name = replace_non_word (c @ ''_'' @ n),
          tool_description = JStr (''MCP tool: '' @ n),
          tool_inputSchema = ZObject [] True, tool_outputSchema = ZAny,
          tool_execute = McpCall c (JStr n)\<rparr>"
  by (simp add: convertToAiSdkTool_def jsonSchemaToZod.simps js_or_def qualified_name_def)

subsection \<open>C1: the default tools fill an empty discovery\<close>

text \<open>
  C1. \<open>initialize\<close> runs on a provider that is not yet initialized, MCP is enabled and
  \<open>you_mcp\<close> is the only enabled connection. After the client's pre-fetch, the discovery
  that \<open>loadTools\<close> makes for \<open>you_mcp\<close> returns the empty sequence, whether the
  request failed or the registry has no tools. Then the catalog holds exactly the two
  default tools: \<open>getToolNames()\<close> is \<open>web_search\<close>, \<open>web_fetch\<close>, and so are the keys
  of \<open>getTools()\<close>.
\<close>

theorem fallback_when_discovery_empty:
  assumes ni: "\<not> initialized (provider s)"
    and en: "isMcpEnabled cfg"
    and sole: "getEnabledMcpConnections cfg = [conn]"
    and nm: "conn_name conn = ''you_mcp''"
    and pre: "mcpClient_initialize [client_config conn] (mcpClient s) (net s) = (c1, w1)"
    and disc: "fst (listTools ''you_mcp'' c1 w1) = JArr []"
  shows "getToolNames (provider (initialize cfg s)) = [''web_search'', ''web_fetch'']
       \<and> map fst (getTools (provider (initialize cfg s))) = [''web_search'', ''web_fetch'']"
proof -
  have e: "conn_enabled conn" using enabled_member[OF sole] by simp
  obtain c2 w2 where l: "listTools ''you_mcp'' c1 w1 = (JArr [], c2, w2)"
    using disc by (cases "listTools ''you_mcp'' c1 w1") auto
  have ld: "loadTools [conn] (s\<lparr>mcpClient := c1, net := w1\<rparr>)
          = \<lparr>provider = addDefaultTools ((provider s)\<lparr>tools := []\<rparr>), mcpClient = c2, net = w2\<rparr>"
    unfolding loadTools_def
    using load_single_empty[OF e nm l, of "(provider s)\<lparr>tools := []\<rparr>"]
    by (cases s) simp
  have i: "initialize cfg s
         = \<lparr>provider = (addDefaultTools ((provider s)\<lparr>tools := []\<rparr>))\<lparr>initialized := True\<rparr>,
            mcpClient = c2, net = w2\<rparr>"
    using ni en sole pre ld by (simp add: initialize_def)
  show ?thesis
    unfolding i using default_names[of "provider s"]
    by (simp add: getToolNames_def getTools_def object_assign_def array_index_def is_digit_def)
qed

text \<open>
  The theorem at work: a registry that answers 500 to every request, and a registry that
  answers 200 with an empty tool list (which the pre-fetch caches).
\<close>

theorem fallback_when_discovery_empty_witness:
  "getToolNames (provider (initialize default_configuration (new_system (always http_500))))
     = [''web_search'', ''web_fetch'']
   \<and> getToolNames (provider (initialize default_configuration
         (new_system (always (http_200 (JObj [(''tools'', JArr [])]))))))
     = [''web_search'', ''web_fetch'']"
proof
  let ?conn = "hd (connections default_configuration)"
  have sole: "getEnabledMcpConnections default_configuration = [?conn]"
    and nm: "conn_name ?conn = ''you_mcp''"
    and cc: "client_config ?conn =
       \<lparr>cc_connectionName = ''you_mcp'',
        cc_description = Some ''Unity Catalog MCP server for web search, content fetching, and real-time information'',
        cc_enabled = Some True\<rparr>"
    by (simp_all add: default_connections client_config_def)
  have ni: "\<not> initialized (provider (new_system w))" for w
    by (simp add: new_system_def new_provider_def)
  show "getToolNames (provider (initialize default_configuration (new_system (always http_500))))
     = [''web_search'', ''web_fetch'']"
  proof -
    have pre: "mcpClient_initialize [client_config ?conn] (mcpClient (new_system (always http_500)))
        (net (new_system (always http_500)))
      = (new_client, (always http_500)\<lparr>clock := 1000040, attempts := 1,
           sent := [example_request tools_list]\<rparr>)"
      using list_500 by (simp add: cc new_system_def)
    have disc: "fst (listTools ''you_mcp'' new_client ((always http_500)\<lparr>clock := 1000040, attempts := 1,
           sent := [example_request tools_list]\<rparr>)) = JArr []"
      using list_500_again by simp
    from fallback_when_discovery_empty[OF ni default_connections(2) sole nm pre disc]
    show ?thesis by simp
  qed
  show "getToolNames (provider (initialize default_configuration
         (new_system (always (http_200 (JObj [(''tools'', JArr [])]))))))
     = [''web_search'', ''web_fetch'']"
  proof -
    let ?w = "always (http_200 (JObj [(''tools'', JArr [])]))"
    let ?w1 = "?w\<lparr>clock := 1000040, attempts := 1,
            sent := [example_request tools_list]\<rparr>"
    have pre: "mcpClient_initialize [client_config ?conn] (mcpClient (new_system ?w)) (net (new_system ?w))
      = (cacheTools ''you_mcp'' (JArr []) 1000040 new_client, ?w1)"
      using list_200[of "JObj [(''tools'', JArr [])]"] by (simp add: cc new_system_def Let_def)
    have disc: "fst (listTools ''you_mcp'' (cacheTools ''you_mcp'' (JArr []) 1000040 new_client) ?w1) = JArr []"
      using cached_hit[of "JArr []" ?w1] by (simp add: always_def)
    from fallback_when_discovery_empty[OF ni default_connections(2) sole nm pre disc]
    show ?thesis by simp
  qed
qed

subsection \<open>C2: discovery never raises\<close>

text \<open>
  C2, as the code has it. \<open>listTools\<close> returns a value on every path: each operation of
  its body that can throw is inside the \<open>try\<close>, and the model matches both outcomes of
  each. On a cache miss it makes one attempt and calls \<open>fetch\<close> at most once: exactly
  once, with the request that \<open>prepare\<close> builds, when the credential lookup yields a
  token that is a valid header value and the host lookup succeeds, and not at all when
  one of the two throws. It returns the empty sequence when the request fails (a
  statement before \<open>fetch\<close> throws, \<open>fetch\<close> rejects, the status is not a success, the
  body cannot be read) and when the body received has neither of the two accepted
  shapes.
\<close>

theorem discovery_never_raises:
  assumes miss: "cache_lookup c (clock w) cn = None"
  shows "attempts (snd (snd (listTools cn c w))) = Suc (attempts w)
       \<and> sent (snd (snd (listTools cn c w))) =
           (case prepare cn tools_list (script w (attempts w)) of
              Inl e \<Rightarrow> sent w
            | Inr req \<Rightarrow> sent w @ [req])
       \<and> ((\<exists>req. prepare cn tools_list (script w (attempts w)) = Inr req)
            = (\<exists>tok h. token (script w (attempts w)) = Inr tok
                  \<and> valid_header_value (normalize_header_value (''Bearer '' @ tok))
                  \<and> host (script w (attempts w)) = Inr h))
       \<and> (request_failed (response_of cn tools_list (script w (attempts w)))
            \<or> (\<exists>data. received_body (response_of cn tools_list (script w (attempts w)))
                         = Some data \<and> neither_shape data)
            \<longrightarrow> fst (listTools cn c w) = JArr [])"
proof (intro conjI impI)
  show "attempts (snd (snd (listTools cn c w))) = Suc (attempts w)"
    by (rule listTools_miss_sent(2)[OF miss])
  show "sent (snd (snd (listTools cn c w))) =
           (case prepare cn tools_list (script w (attempts w)) of
              Inl e \<Rightarrow> sent w
            | Inr req \<Rightarrow> sent w @ [req])"
    by (rule listTools_miss_sent(1)[OF miss])
  show "(\<exists>req. prepare cn tools_list (script w (attempts w)) = Inr req)
            = (\<exists>tok h. token (script w (attempts w)) = Inr tok
                  \<and> valid_header_value (normalize_header_value (''Bearer '' @ tok))
                  \<and> host (script w (attempts w)) = Inr h)"
    by (auto simp: prepare_def getAuthHeaders_def getBaseUrl_def Let_def
        split: sum.splits if_splits)
  assume "request_failed (response_of cn tools_list (script w (attempts w)))
            \<or> (\<exists>data. received_body (response_of cn tools_list (script w (attempts w)))
                         = Some data \<and> neither_shape data)"
  then show "fst (listTools cn c w) = JArr []"
    using listTools_failed[OF miss] listTools_neither[OF miss] by blast
qed

text \<open>
  The theorem at work on a registry that answers 500: \<open>fetch\<close> is called once and the
  result is empty.
\<close>

theorem discovery_never_raises_witness:
  "fst (listTools ''you_mcp'' new_client (always http_500)) = JArr []
   \<and> sent (snd (snd (listTools ''you_mcp'' new_client (always http_500))))
       = [example_request tools_list]"
proof -
  have miss: "cache_lookup new_client (clock (always http_500)) ''you_mcp'' = None"
    by (rule cache_lookup_new)
  have a: "script (always http_500) (attempts (always http_500)) = http_500"
    "sent (always http_500) = []"
    by (simp_all add: always_def)
  have f: "request_failed (response_of ''you_mcp'' tools_list http_500)"
    by (simp add: request_failed_def response_of_def prepare_500) (simp add: http_500_def)
  from discovery_never_raises[OF miss] f show ?thesis
    by (simp add: a prepare_500)
qed

text \<open>
  The claim as stated fails where it says that a cache miss issues exactly one request.
  When the credential provider throws, and when the credential has a line feed inside
  so that \<open>headers.set\<close> throws, the discovery is a cache miss, returns the empty
  sequence and never calls \<open>fetch\<close>.
\<close>

theorem discovery_request_count_counterexample:
  "cache_lookup new_client (clock (always no_credentials)) ''you_mcp'' = None
   \<and> fst (listTools ''you_mcp'' new_client (always no_credentials)) = JArr []
   \<and> sent (snd (snd (listTools ''you_mcp'' new_client (always no_credentials)))) = []
   \<and> fst (listTools ''you_mcp'' new_client (always broken_token)) = JArr []
   \<and> sent (snd (snd (listTools ''you_mcp'' new_client (always broken_token)))) = []"
  by (simp add: listTools_def cache_lookup_new post_def always_def prepare_none prepare_broken)

subsection \<open>C3: what a failed discovery does to the cache\<close>

text \<open>
  C3, as the code has it. A discovery whose request fails (a statement before \<open>fetch\<close>
  throws, \<open>fetch\<close> rejects, the status is not a success, the body cannot be read), or
  whose body is JSON \<open>null\<close>, leaves the client's cache as it was. A body that is read
  and is neither an array nor an object with a \<open>tools\<close> property (and is not \<open>null\<close>)
  counts as an empty discovery: on a cache miss the empty sequence is returned and
  stored for the connection, with the usual expiry.
\<close>

theorem failed_discovery_cache:
  "(request_failed (response_of cn tools_list (script w (attempts w)))
      \<or> received_body (response_of cn tools_list (script w (attempts w))) = Some JNull
    \<longrightarrow> fst (snd (listTools cn c w)) = c)
   \<and> (cache_lookup c (clock w) cn = None
        \<and> received_body (response_of cn tools_list (script w (attempts w))) = Some data
        \<and> neither_shape data \<and> data \<noteq> JNull \<and> data \<noteq> JUndefined
      \<longrightarrow> fst (listTools cn c w) = JArr []
          \<and> fst (snd (listTools cn c w))
              = cacheTools cn (JArr []) (clock w + latency (script w (attempts w))) c)"
proof (intro conjI impI)
  assume f: "request_failed (response_of cn tools_list (script w (attempts w)))
      \<or> received_body (response_of cn tools_list (script w (attempts w))) = Some JNull"
  show "fst (snd (listTools cn c w)) = c"
  proof (cases "cache_lookup c (clock w) cn")
    case (Some cached)
    then show ?thesis by (simp add: listTools_hit)
  next
    case None
    from f show ?thesis
    proof
      assume "request_failed (response_of cn tools_list (script w (attempts w)))"
      then show ?thesis using listTools_failed[OF None] by simp
    next
      assume "received_body (response_of cn tools_list (script w (attempts w))) = Some JNull"
      then show ?thesis by (simp add: listTools_body[OF None])
    qed
  qed
next
  assume h: "cache_lookup c (clock w) cn = None
        \<and> received_body (response_of cn tools_list (script w (attempts w))) = Some data
        \<and> neither_shape data \<and> data \<noteq> JNull \<and> data \<noteq> JUndefined"
  then have t: "js_get data ''tools'' = Inr JUndefined"
    by (cases data) (auto simp: neither_shape_def)
  show "fst (listTools cn c w) = JArr []"
    using h t by (simp add: listTools_body neither_shape_def Let_def)
  show "fst (snd (listTools cn c w))
      = cacheTools cn (JArr []) (clock w + latency (script w (attempts w))) c"
    using h t by (simp add: listTools_body neither_shape_def Let_def)
qed

text \<open>
  The theorem at work: a 500 and a credential that \<open>headers.set\<close> rejects leave an empty
  cache empty, and a 200 whose body is an error object stores the empty sequence.
\<close>

theorem failed_discovery_cache_witness:
  "fst (snd (listTools ''you_mcp'' new_client (always http_500))) = new_client
   \<and> fst (snd (listTools ''you_mcp'' new_client (always broken_token))) = new_client
   \<and> fst (snd (listTools ''you_mcp'' new_client
         (always (http_200 (JObj [(''error'', JStr ''Method not found'')])))))
       = cacheTools ''you_mcp'' (JArr []) 1000040 new_client"
proof (intro conjI)
  have f: "request_failed (response_of ''you_mcp'' tools_list
             (script (always http_500) (attempts (always http_500))))"
    by (simp add: request_failed_def response_of_def prepare_500 always_def)
       (simp add: http_500_def)
  from failed_discovery_cache[of "''you_mcp''" "always http_500" new_client] f
  show "fst (snd (listTools ''you_mcp'' new_client (always http_500))) = new_client"
    by blast
  have g: "request_failed (response_of ''you_mcp'' tools_list
             (script (always broken_token) (attempts (always broken_token))))"
    by (simp add: request_failed_def response_of_def prepare_broken always_def)
  from failed_discovery_cache[of "''you_mcp''" "always broken_token" new_client] g
  show "fst (snd (listTools ''you_mcp'' new_client (always broken_token))) = new_client"
    by blast
  let ?data = "JObj [(''error'', JStr ''Method not found'')]"
  let ?w = "always (http_200 ?data)"
  have h: "cache_lookup new_client (clock ?w) ''you_mcp'' = None
        \<and> received_body (response_of ''you_mcp'' tools_list (script ?w (attempts ?w)))
            = Some ?data
        \<and> neither_shape ?data \<and> ?data \<noteq> JNull \<and> ?data \<noteq> JUndefined"
    by (simp add: cache_lookup_new received_body_def response_of_def prepare_200
        neither_shape_def always_def)
       (simp add: http_200_def)
  have "clock ?w + latency (script ?w (attempts ?w)) = 1000040"
    by (simp add: always_def http_200_def)
  with failed_discovery_cache[of "''you_mcp''" ?w new_client ?data] h
  show "fst (snd (listTools ''you_mcp'' new_client ?w))
       = cacheTools ''you_mcp'' (JArr []) 1000040 new_client"
    by simp
qed

text \<open>
  The claim as stated fails on a body of neither shape: the discovery below receives an
  error object, and afterwards the cache holds an entry for the connection that answers
  the next discovery, one second later, without a call of \<open>fetch\<close>.
\<close>

theorem failed_discovery_cache_counterexample:
  "neither_shape (JObj [(''error'', JStr ''Method not found'')])
   \<and> cachedTools (fst (snd (listTools ''you_mcp'' new_client
        (always (http_200 (JObj [(''error'', JStr ''Method not found'')]))))))
        ''you_mcp'' = Some (JArr [])
   \<and> fst (snd (listTools ''you_mcp'' new_client
        (always (http_200 (JObj [(''error'', JStr ''Method not found'')]))))) \<noteq> new_client
   \<and> listTools ''you_mcp'' (cacheTools ''you_mcp'' (JArr []) 1000040 new_client)
        ((always (http_200 (JObj [(''error'', JStr ''Method not found'')])))
           \<lparr>clock := 1001040, attempts := 1\<rparr>)
       = (JArr [], cacheTools ''you_mcp'' (JArr []) 1000040 new_client,
          (always (http_200 (JObj [(''error'', JStr ''Method not found'')])))
           \<lparr>clock := 1001040, attempts := 1\<rparr>)"
proof -
  let ?data = "JObj [(''error'', JStr ''Method not found'')]"
  have l: "fst (snd (listTools ''you_mcp'' new_client (always (http_200 ?data))))
         = cacheTools ''you_mcp'' (JArr []) 1000040 new_client"
    using list_200[of ?data] by (simp add: Let_def)
  have n: "neither_shape ?data" by (simp add: neither_shape_def)
  have c: "cachedTools (cacheTools ''you_mcp'' (JArr []) 1000040 new_client) ''you_mcp''
         = Some (JArr [])"
    by (simp add: cacheTools_def)
  have d: "cacheTools ''you_mcp'' (JArr []) 1000040 new_client \<noteq> new_client"
  proof
    assume "cacheTools ''you_mcp'' (JArr []) 1000040 new_client = new_client"
    then have "cachedTools (cacheTools ''you_mcp'' (JArr []) 1000040 new_client) ''you_mcp''
             = cachedTools new_client ''you_mcp''" by simp
    then show False by (simp add: cacheTools_def new_client_def)
  qed
  have h: "listTools ''you_mcp'' (cacheTools ''you_mcp'' (JArr []) 1000040 new_client)
        ((always (http_200 ?data))\<lparr>clock := 1001040, attempts := 1\<rparr>)
       = (JArr [], cacheTools ''you_mcp'' (JArr []) 1000040 new_client,
          (always (http_200 ?data))\<lparr>clock := 1001040, attempts := 1\<rparr>)"
    by (rule cached_hit) simp_all
  show ?thesis using n c d h unfolding l by blast
qed

subsection \<open>C4: refresh\<close>

text \<open>
  C4, as the code has it. \<open>refresh\<close> empties the client's cache, resets \<open>initialized\<close> and
  runs \<open>initialize\<close>, which ends with \<open>initialized\<close> set. The cache it starts from answers
  no discovery, whatever the time. When MCP is enabled at that moment, the result is that
  of an \<open>initialize\<close> on a new provider and a new client in the current world: the tools
  held before are gone, the catalog is reloaded from the enabled connections, and at
  least one live attempt is made, however recent the previous discovery. When MCP is
  disabled at that moment, \<open>initialize\<close> returns before \<open>loadTools\<close>: the cache stays
  empty and the flag is set, but the tools held before stay in the catalog, and nothing
  is sent.
\<close>

theorem refresh_reloads_when_enabled:
  "initialized (provider (refresh cfg s))
   \<and> cache_lookup (clearCache (mcpClient s)) now cn = None
   \<and> (isMcpEnabled cfg \<longrightarrow>
        refresh cfg s = initialize cfg (new_system (net s))
        \<and> attempts (net s) < attempts (net (refresh cfg s)))
   \<and> (\<not> isMcpEnabled cfg \<longrightarrow>
        refresh cfg s = s\<lparr>mcpClient := new_client, provider := (provider s)\<lparr>initialized := True\<rparr>\<rparr>)"
  using refresh_enabled[of cfg s] refresh_live[of cfg s] refresh_disabled[of cfg s]
    initialize_flag[of cfg] clearCache_new[of "mcpClient s"] cache_lookup_new[of now cn]
  by (simp add: refresh_def)

lemma initialize_500:
  "initialize default_configuration (new_system (always http_500)) =
     \<lparr>provider = \<lparr>tools = [(''web_search'', web_search_tool), (''web_fetch'', web_fetch_tool)],
                  initialized = True\<rparr>,
      mcpClient = new_client,
      net = (always http_500)\<lparr>clock := 1000080, attempts := 2,
         sent := [example_request tools_list,
                  example_request tools_list]\<rparr>\<rparr>"
  using list_500 list_500_again
  by (simp add: initialize_def default_connections new_system_def new_provider_def
      client_config_def loadTools_def addDefaultTools_def addWebSearchTool_def
      addWebFetchTool_def)

text \<open>
  The theorem at work: with MCP enabled, a refresh of a catalog that holds a stale tool
  makes live attempts and ends with the default tools only; with MCP disabled it keeps
  the catalog.
\<close>

theorem refresh_reloads_when_enabled_witness:
  "attempts (net (new_system (always http_500)))
     < attempts (net (refresh default_configuration (new_system (always http_500))))
   \<and> refresh default_configuration
        ((new_system (always http_500))
           \<lparr>provider := \<lparr>tools = [(''stale'', web_fetch_tool)], initialized = True\<rparr>\<rparr>)
      = initialize default_configuration (new_system (always http_500))
   \<and> refresh disabled_configuration (new_system (always http_500))
      = (new_system (always http_500))\<lparr>provider := new_provider\<lparr>initialized := True\<rparr>\<rparr>"
proof (intro conjI)
  let ?s = "new_system (always http_500)"
  let ?s' = "?s\<lparr>provider := \<lparr>tools = [(''stale'', web_fetch_tool)], initialized = True\<rparr>\<rparr>"
  from refresh_reloads_when_enabled[of default_configuration ?s] default_connections(2)
  show "attempts (net ?s) < attempts (net (refresh default_configuration ?s))"
    by blast
  have "net ?s' = always http_500" by (simp add: new_system_def)
  with refresh_reloads_when_enabled[of default_configuration ?s'] default_connections(2)
  show "refresh default_configuration ?s' = initialize default_configuration ?s"
    by simp
  from refresh_reloads_when_enabled[of disabled_configuration ?s] disabled_connections
  show "refresh disabled_configuration ?s = ?s\<lparr>provider := new_provider\<lparr>initialized := True\<rparr>\<rparr>"
    by (simp add: new_system_def)
qed

text \<open>
  The claim as stated fails when MCP is disabled at refresh time: a catalog that holds
  the two default tools still holds them after the refresh, and \<open>getTools()\<close> returns
  them.
\<close>

theorem refresh_disabled_counterexample:
  "\<not> isMcpEnabled disabled_configuration
   \<and> getToolNames (provider (refresh disabled_configuration
        (initialize default_configuration (new_system (always http_500)))))
      = [''web_search'', ''web_fetch'']
   \<and> map fst (getTools (provider (refresh disabled_configuration
        (initialize default_configuration (new_system (always http_500))))))
      = [''web_search'', ''web_fetch'']"
  unfolding initialize_500
  by (simp add: disabled_connections refresh_def initialize_def getToolNames_def getTools_def
      default_object)

subsection \<open>C5: qualified names\<close>

text \<open>
  C5, as the code has it. For a descriptor whose \<open>name\<close> is a string, the name of the
  converted tool is \<open>connectionName_toolName\<close> with every character outside
  \<open>[A-Za-z0-9_]\<close> replaced by an underscore; it contains only characters of that class
  and is a function of the two strings. For two pairs of connection and tool name whose
  connection names have the same length (the same source, for one) or consist of
  letters and digits only, the qualified names are equal exactly when the connection
  names are equal after the replacement and the tool names are equal after the
  replacement; so such pairs get different names when no character of the four strings
  needs replacing. Without that, different pairs can get the same name, also within one
  source.
\<close>

theorem qualified_name_shape:
  assumes "convertToAiSdkTool mcpTool c = Inr t"
    and "js_get mcpTool ''name'' = Inr (JStr n)"
  shows "tool_name t = map (\<lambda>x. if word_char x then x else CHR ''_'') (c @ ''_'' @ n)
       \<and> (\<forall>x \<in> set (tool_name t). word_char x)
       \<and> (\<forall>mcpTool' c' t' n'.
            convertToAiSdkTool mcpTool' c' = Inr t' \<and> js_get mcpTool' ''name'' = Inr (JStr n')
            \<and> (length c' = length c \<or> (\<forall>x \<in> set (c @ c'). word_char x \<and> x \<noteq> CHR ''_''))
            \<longrightarrow> (tool_name t' = tool_name t)
                  = (replace_non_word c' = replace_non_word c
                     \<and> replace_non_word n' = replace_non_word n)
                \<and> ((\<forall>x \<in> set (c @ n @ c' @ n'). word_char x) \<and> tool_name t' = tool_name t
                     \<longrightarrow> c' = c \<and> n' = n))"
proof -
  have nm: "tool_name t = replace_non_word (c @ ''_'' @ n)"
    using convert_name[OF assms] .
  have uniq: "(tool_name t' = tool_name t)
                  = (replace_non_word c' = replace_non_word c
                     \<and> replace_non_word n' = replace_non_word n)
                \<and> ((\<forall>x \<in> set (c @ n @ c' @ n'). word_char x) \<and> tool_name t' = tool_name t
                     \<longrightarrow> c' = c \<and> n' = n)"
    if h: "convertToAiSdkTool mcpTool' c' = Inr t' \<and> js_get mcpTool' ''name'' = Inr (JStr n')
            \<and> (length c' = length c \<or> (\<forall>x \<in> set (c @ c'). word_char x \<and> x \<noteq> CHR ''_''))"
    for mcpTool' c' t' n'
  proof -
    have nm': "tool_name t' = replace_non_word (c' @ ''_'' @ n')"
      using convert_name[of mcpTool' c' t' n'] h by simp
    have al: "length c' = length c \<or> (\<forall>x \<in> set (c @ c'). word_char x \<and> x \<noteq> CHR ''_'')"
      using h by simp
    have e: "(tool_name t' = tool_name t)
           = (replace_non_word c' = replace_non_word c
              \<and> replace_non_word n' = replace_non_word n)"
    proof
      assume "tool_name t' = tool_name t"
      then have "replace_non_word (c' @ ''_'' @ n') = replace_non_word (c @ ''_'' @ n)"
        using nm nm' by simp
      from qualified_name_equal[OF this al]
      show "replace_non_word c' = replace_non_word c
              \<and> replace_non_word n' = replace_non_word n" .
    next
      assume "replace_non_word c' = replace_non_word c
              \<and> replace_non_word n' = replace_non_word n"
      then show "tool_name t' = tool_name t"
        unfolding nm nm' by (simp only: qualified_parts)
    qed
    have i: "c' = c \<and> n' = n"
      if w: "(\<forall>x \<in> set (c @ n @ c' @ n'). word_char x) \<and> tool_name t' = tool_name t"
    proof -
      have "replace_non_word c = c" "replace_non_word c' = c'"
        "replace_non_word n = n" "replace_non_word n' = n'"
        using w by (auto intro: replace_non_word_id)
      then show ?thesis using e w by simp
    qed
    show ?thesis using e i by blast
  qed
  show ?thesis
  proof (intro conjI)
    show "tool_name t = map (\<lambda>x. if word_char x then x else CHR ''_'') (c @ ''_'' @ n)"
      using nm by (simp only: replace_non_word_def)
    show "\<forall>x \<in> set (tool_name t). word_char x"
      unfolding nm by (rule word_char_replace)
    show "\<forall>mcpTool' c' t' n'.
            convertToAiSdkTool mcpTool' c' = Inr t' \<and> js_get mcpTool' ''name'' = Inr (JStr n')
            \<and> (length c' = length c \<or> (\<forall>x \<in> set (c @ c'). word_char x \<and> x \<noteq> CHR ''_''))
            \<longrightarrow> (tool_name t' = tool_name t)
                  = (replace_non_word c' = replace_non_word c
                     \<and> replace_non_word n' = replace_non_word n)
                \<and> ((\<forall>x \<in> set (c @ n @ c' @ n'). word_char x) \<and> tool_name t' = tool_name t
                     \<longrightarrow> c' = c \<and> n' = n)"
      using uniq by (intro allI impI)
  qed
qed

text \<open>
  The spec's example, source \<open>you mcp!\<close> and tool \<open>web-search\<close>; and the two tools
  \<open>web_search\<close> and \<open>web_fetch\<close> of the source \<open>you_mcp\<close>, which get different names.
\<close>

theorem qualified_name_shape_witness:
  "map_sum id tool_name (convertToAiSdkTool (JObj [(''name'', JStr ''web-search'')]) ''you mcp!'')
     = Inr ''you_mcp__web_search''
   \<and> map_sum id tool_name (convertToAiSdkTool (JObj [(''name'', JStr ''web_fetch'')]) ''you_mcp'')
     \<noteq> map_sum id tool_name (convertToAiSdkTool (JObj [(''name'', JStr ''web_search'')]) ''you_mcp'')"
proof
  let ?t = "\<lparr>tool_name = replace_non_word (''you mcp!'' @ ''_'' @ ''web-search''),
          tool_description = JStr (''MCP tool: '' @ ''web-search''),
          tool_inputSchema = ZObject [] True, tool_outputSchema = ZAny,
          tool_execute = McpCall ''you mcp!'' (JStr ''web-search'')\<rparr>"
  have 1: "convertToAiSdkTool (JObj [(''name'', JStr ''web-search'')]) ''you mcp!'' = Inr ?t"
    by (rule convert_named)
  have 2: "js_get (JObj [(''name'', JStr ''web-search'')]) ''name'' = Inr (JStr ''web-search'')"
    by simp
  from qualified_name_shape[OF 1 2, THEN conjunct1]
  have "tool_name ?t = ''you_mcp__web_search''"
    by (simp add: word_char_def)
  then show "map_sum id tool_name
      (convertToAiSdkTool (JObj [(''name'', JStr ''web-search'')]) ''you mcp!'')
     = Inr ''you_mcp__web_search''"
    unfolding 1 by simp
next
  let ?s = "\<lparr>tool_name = replace_non_word (''you_mcp'' @ ''_'' @ ''web_search''),
          tool_description = JStr (''MCP tool: '' @ ''web_search''),
          tool_inputSchema = ZObject [] True, tool_outputSchema = ZAny,
          tool_execute = McpCall ''you_mcp'' (JStr ''web_search'')\<rparr>"
  let ?f = "\<lparr>tool_name = replace_non_word (''you_mcp'' @ ''_'' @ ''web_fetch''),
          tool_description = JStr (''MCP tool: '' @ ''web_fetch''),
          tool_inputSchema = ZObject [] True, tool_outputSchema = ZAny,
          tool_execute = McpCall ''you_mcp'' (JStr ''web_fetch'')\<rparr>"
  have 1: "convertToAiSdkTool (JObj [(''name'', JStr ''web_search'')]) ''you_mcp'' = Inr ?s"
    by (rule convert_named)
  have 2: "js_get (JObj [(''name'', JStr ''web_search'')]) ''name'' = Inr (JStr ''web_search'')"
    by simp
  have 3: "convertToAiSdkTool (JObj [(''name'', JStr ''web_fetch'')]) ''you_mcp'' = Inr ?f
         \<and> js_get (JObj [(''name'', JStr ''web_fetch'')]) ''name'' = Inr (JStr ''web_fetch'')
         \<and> (length ''you_mcp'' = length ''you_mcp''
             \<or> (\<forall>x \<in> set (''you_mcp'' @ ''you_mcp''). word_char x \<and> x \<noteq> CHR ''_''))"
    by (simp add: convert_named)
  have 4: "\<forall>x \<in> set (''you_mcp'' @ ''web_search'' @ ''you_mcp'' @ ''web_fetch''). word_char x"
    by (simp add: word_char_def)
  from qualified_name_shape[OF 1 2, THEN conjunct2, THEN conjunct2, THEN spec, THEN spec,
      THEN spec, THEN spec, THEN mp, OF 3, THEN conjunct2] 4
  have "tool_name ?f \<noteq> tool_name ?s" by auto
  then show "map_sum id tool_name
      (convertToAiSdkTool (JObj [(''name'', JStr ''web_fetch'')]) ''you_mcp'')
     \<noteq> map_sum id tool_name
      (convertToAiSdkTool (JObj [(''name'', JStr ''web_search'')]) ''you_mcp'')"
    unfolding 1 3[THEN conjunct1] by simp
qed

text \<open>
  The claim as stated fails where it says that different pairs always get different
  names: tool \<open>b_c\<close> of source \<open>a\<close> and tool \<open>c\<close> of source \<open>a_b\<close> are both \<open>a_b_c\<close>, and
  within the source \<open>you_mcp\<close> the tools \<open>web-search\<close> and \<open>web_search\<close> are both
  \<open>you_mcp_web_search\<close>.
\<close>

theorem qualified_name_collision:
  "(''a'', ''b_c'') \<noteq> (''a_b'', ''c'')
   \<and> map_sum id tool_name (convertToAiSdkTool (JObj [(''name'', JStr ''b_c'')]) ''a'') = Inr ''a_b_c''
   \<and> map_sum id tool_name (convertToAiSdkTool (JObj [(''name'', JStr ''c'')]) ''a_b'') = Inr ''a_b_c''
   \<and> ''web-search'' \<noteq> ''web_search''
   \<and> map_sum id tool_name (convertToAiSdkTool (JObj [(''name'', JStr ''web-search'')]) ''you_mcp'')
       = Inr ''you_mcp_web_search''
   \<and> map_sum id tool_name (convertToAiSdkTool (JObj [(''name'', JStr ''web_search'')]) ''you_mcp'')
       = Inr ''you_mcp_web_search''"
  by (simp add: convert_named replace_non_word_def word_char_def)

subsection \<open>C6: the schema translator on the spec's vectors\<close>



subsection \<open>C7: the cache answers until it expires\<close>




subsection \<open>C8: a second initialize does nothing\<close>

text \<open>
  C8. \<open>initialize\<close> always ends with \<open>initialized\<close> set, and calling it again, under any
  configuration, returns the state as it is: the same tool map and flag, the same client
  cache, and the same world, so no attempt is made and no request is sent.
\<close>

theorem initialize_idempotent:
  "initialized (provider (initialize cfg s))
   \<and> initialize cfg' (initialize cfg s) = initialize cfg s
   \<and> sent (net (initialize cfg' (initialize cfg s))) = sent (net (initialize cfg s))
   \<and> attempts (net (initialize cfg' (initialize cfg s))) = attempts (net (initialize cfg s))"
  using initialize_flag[of cfg s] by (simp add: initialize_def[of cfg' "initialize cfg s"])

theorem initialize_idempotent_witness:
  "getToolNames (provider (initialize default_configuration
       (initialize default_configuration (new_system (always http_500)))))
     = getToolNames (provider (initialize default_configuration (new_system (always http_500))))
   \<and> initialized (provider (initialize default_configuration (new_system (always http_500))))"
  using initialize_idempotent[of default_configuration "new_system (always http_500)"
      default_configuration]
  by simp

subsection \<open>C9: a default tool whose remote call fails\<close>




subsection \<open>C10: only getTools reads the flag\<close>

text \<open>
  C10. \<open>getTools()\<close> consults the flag: while \<open>initialized\<close> is false it is empty, and
  once the flag is true it holds, under every name other than \<open>__proto__\<close>, the tool the
  map holds under that name. \<open>getTool\<close>, \<open>hasTool\<close> and \<open>getToolNames\<close> do not depend on
  the flag, they read the tool map: after a tool is stored under a name, \<open>getTool\<close>
  returns it for that name and what it returned before for every other name,
  \<open>getToolNames\<close> lists the name (at the end when it is new) and stays free of
  repetitions, and \<open>hasTool\<close> holds of exactly the names that \<open>getTool\<close> finds and
  \<open>getToolNames\<close> lists. So in a state where
  the flag is false and the map is not empty, as it is inside \<open>refresh\<close> between the reset
  of the flag and the reload, \<open>getTools()\<close> is empty while \<open>getToolNames()\<close> is not and
  \<open>hasTool\<close> holds of every name it lists.
\<close>

theorem only_getTools_reads_flag:
  "(\<not> initialized p \<longrightarrow> getTools p = [])
   \<and> (initialized p \<and> distinct (map fst (tools p)) \<and> n \<noteq> ''__proto__''
        \<longrightarrow> map_of (getTools p) n = getTool p n)
   \<and> getTool (p\<lparr>initialized := b\<rparr>) n = getTool p n
   \<and> hasTool (p\<lparr>initialized := b\<rparr>) n = hasTool p n
   \<and> getToolNames (p\<lparr>initialized := b\<rparr>) = getToolNames p
   \<and> getTool (p\<lparr>tools := map_set (tools p) k t\<rparr>) n = (if n = k then Some t else getTool p n)
   \<and> getToolNames (p\<lparr>tools := map_set (tools p) k t\<rparr>)
       = (if hasTool p k then getToolNames p else getToolNames p @ [k])
   \<and> (distinct (getToolNames p)
        \<longrightarrow> distinct (getToolNames (p\<lparr>tools := map_set (tools p) k t\<rparr>)))
   \<and> hasTool p n = (getTool p n \<noteq> None)
   \<and> hasTool p n = (n \<in> set (getToolNames p))
   \<and> (\<not> initialized p \<and> tools p \<noteq> [] \<longrightarrow>
        getTools p = [] \<and> getToolNames p \<noteq> [] \<and> (\<forall>n \<in> set (getToolNames p). hasTool p n))"
proof (intro conjI impI)
  assume "initialized p \<and> distinct (map fst (tools p)) \<and> n \<noteq> ''__proto__''"
  then show "map_of (getTools p) n = getTool p n"
    by (simp add: getTools_map_of getTool_def)
next
  show "getTool (p\<lparr>tools := map_set (tools p) k t\<rparr>) n = (if n = k then Some t else getTool p n)"
    by (simp add: getTool_def map_set_map_of)
  show "getToolNames (p\<lparr>tools := map_set (tools p) k t\<rparr>)
       = (if hasTool p k then getToolNames p else getToolNames p @ [k])"
    by (simp add: getToolNames_def hasTool_def map_set_keys)
  show "hasTool p n = (getTool p n \<noteq> None)"
    by (simp add: hasTool_def getTool_def map_of_eq_None_iff)
  show "distinct (getToolNames (p\<lparr>tools := map_set (tools p) k t\<rparr>))"
    if "distinct (getToolNames p)"
    using that by (simp add: getToolNames_def map_set_distinct)
qed (auto simp: getTools_def getTool_def hasTool_def getToolNames_def)

text \<open>
  The theorem at work on the default catalog: with the flag reset, as inside \<open>refresh\<close>,
  \<open>getTools()\<close> is empty while the other three still see both tools; with the flag set,
  \<open>getTools()\<close> holds the tool of the map.
\<close>

theorem only_getTools_reads_flag_witness:
  "getTools ((addDefaultTools new_provider)\<lparr>initialized := False\<rparr>) = []
   \<and> getToolNames ((addDefaultTools new_provider)\<lparr>initialized := False\<rparr>)
       = [''web_search'', ''web_fetch'']
   \<and> hasTool ((addDefaultTools new_provider)\<lparr>initialized := False\<rparr>) ''web_fetch''
   \<and> getTool ((addDefaultTools new_provider)\<lparr>initialized := False\<rparr>) ''web_fetch''
       = Some web_fetch_tool
   \<and> map_of (getTools ((addDefaultTools new_provider)\<lparr>initialized := True\<rparr>)) ''web_fetch''
       = Some web_fetch_tool
   \<and> getTool (addWebFetchTool new_provider) ''web_fetch'' = Some web_fetch_tool
   \<and> getTool (addWebFetchTool new_provider) ''web_search'' = None
   \<and> distinct (getToolNames (addWebFetchTool (addWebSearchTool new_provider)))"
proof (intro conjI)
  let ?d = "addDefaultTools new_provider"
  let ?p = "?d\<lparr>initialized := False\<rparr>"
  let ?q = "?d\<lparr>initialized := True\<rparr>"
  from only_getTools_reads_flag[where p = ?p, THEN conjunct1]
  show "getTools ?p = []" by simp
  from only_getTools_reads_flag[where p = ?d and b = False, THEN conjunct2, THEN conjunct2,
      THEN conjunct2, THEN conjunct2, THEN conjunct1]
  show n: "getToolNames ?p = [''web_search'', ''web_fetch'']"
    by (simp add: getToolNames_def default_tools)
  from only_getTools_reads_flag[where p = ?p and n = "''web_fetch''", THEN conjunct2,
      THEN conjunct2, THEN conjunct2, THEN conjunct2, THEN conjunct2, THEN conjunct2,
      THEN conjunct2, THEN conjunct2, THEN conjunct2, THEN conjunct1]
  show "hasTool ?p ''web_fetch''" by (simp add: n)
  from only_getTools_reads_flag[where p = ?d and b = False and n = "''web_fetch''",
      THEN conjunct2, THEN conjunct2, THEN conjunct1]
  show "getTool ?p ''web_fetch'' = Some web_fetch_tool"
    by (simp add: getTool_def default_tools)
  have "initialized ?q \<and> distinct (map fst (tools ?q)) \<and> ''web_fetch'' \<noteq> ''__proto__''"
    by (simp add: default_tools)
  with only_getTools_reads_flag[where p = ?q and n = "''web_fetch''", THEN conjunct2,
      THEN conjunct1]
  have "map_of (getTools ?q) ''web_fetch'' = getTool ?q ''web_fetch''" by blast
  then show "map_of (getTools ?q) ''web_fetch'' = Some web_fetch_tool"
    by (simp add: getTool_def default_tools)
  from only_getTools_reads_flag[where p = new_provider and k = "''web_fetch''"
      and t = web_fetch_tool and n = "''web_fetch''", THEN conjunct2, THEN conjunct2,
      THEN conjunct2, THEN conjunct2, THEN conjunct2, THEN conjunct1]
  show "getTool (addWebFetchTool new_provider) ''web_fetch'' = Some web_fetch_tool"
    by (simp add: addWebFetchTool_def)
  from only_getTools_reads_flag[where p = new_provider and k = "''web_fetch''"
      and t = web_fetch_tool and n = "''web_search''", THEN conjunct2, THEN conjunct2,
      THEN conjunct2, THEN conjunct2, THEN conjunct2, THEN conjunct1]
  show "getTool (addWebFetchTool new_provider) ''web_search'' = None"
    by (simp add: addWebFetchTool_def getTool_def new_provider_def)
  have "distinct (getToolNames (addWebSearchTool new_provider))"
    by (simp add: getToolNames_def addWebSearchTool_def new_provider_def)
  with only_getTools_reads_flag[where p = "addWebSearchTool new_provider"
      and k = "''web_fetch''" and t = web_fetch_tool, THEN conjunct2, THEN conjunct2,
      THEN conjunct2, THEN conjunct2, THEN conjunct2, THEN conjunct2, THEN conjunct2,
      THEN conjunct1]
  show "distinct (getToolNames (addWebFetchTool (addWebSearchTool new_provider)))"
    by (simp add: addWebFetchTool_def)
qed

end
